theory Spec2Isabelle
  imports Main "HOL-Library.Sublist"
begin

section \<open>The environment of the script\<close>

text \<open>
  \<^verbatim>\<open>interactive_start_training.py\<close> is a sequence of prompts, file-system queries and
  subprocess calls. The model threads an explicit \<open>world\<close> through every function: the
  file system, the environment, the answers the user will give, the behaviour of the
  external programs, and the trace of every interaction the script has performed.

  Paths are identified by their text (no normalisation of \<^verbatim>\<open>..\<close>, repeated slashes or
  symbolic links). Permissions are not modelled. Strings are byte lists; \<^verbatim>\<open>rich\<close> markup and
  the non-ASCII ornaments of the messages are left out of the printed texts.

  Two things of the source are outside this model, and the statements that depend on them
  say so by a hypothesis on the working volume:
  \<^item> \<^verbatim>\<open>os.chdir\<close> changes what a relative path denotes. The model is that of an absolute
    working volume (\<open>absolute_path\<close>), for which it does not.
  \<^item> The messages interpolate paths under the working volume into \<^verbatim>\<open>rich\<close> markup, and
    \<^verbatim>\<open>console.print\<close> raises \<^verbatim>\<open>MarkupError\<close> for a text whose tags do not match. A tag begins
    with \<^verbatim>\<open>[\<close>, so a volume without that character (\<open>markup_free\<close>) puts no tag into a
    message, and \<open>console_print\<close> is the model of printing on such a volume.
\<close>

datatype node = File | Dir "string list"

datatype event =
    Print string
  | Clear
  | Ask string "string option"
  | Confirm string "bool option"
  | Exists string
  | ListDir string
  | MakeDirs string
  | OpenW string
  | Popen "string list"
  | Run "string list" "(string \<times> string) list"
  | ExecFailed "string list"
  | Poll
  | Sleep nat
  | ProgressTask string
  | ProgressAdvance
  | Kill
  | Chdir string
  | Traceback
  | SIGINT

text \<open>
  What unwinds the Python stack: \<^verbatim>\<open>sys.exit(n)\<close> raises \<open>SystemExit\<close>, Ctrl-C raises
  \<open>KeyboardInterrupt\<close> (neither is an \<^verbatim>\<open>Exception\<close>), and every other failure is an
  \<open>Exception\<close> carrying its message.
\<close>

datatype signal = SystemExit int | KeyboardInterrupt | Exception string

text \<open>The two conditions on the working volume.\<close>

definition absolute_path :: "string \<Rightarrow> bool" where
  "absolute_path p = (p \<noteq> [] \<and> hd p = CHR ''/'')"

definition markup_free :: "string \<Rightarrow> bool" where
  "markup_free s = (CHR ''['' \<notin> set s)"

record world =
  NETWORK_VOLUME :: string
  HUGGING_FACE_TOKEN :: "string option"
  fs :: "string \<Rightarrow> node option"
  prompts :: "string list"
  confirms :: "bool list"
  can_exec :: "string \<Rightarrow> bool"
  run_exit :: "string list \<Rightarrow> int"
  fetch_poll :: "nat \<Rightarrow> int option"
  polls :: nat
  sigint_at :: "nat option"
  trace :: "event list"

text \<open>
  \<^item> \<open>NETWORK_VOLUME\<close>: the module constant, \<^verbatim>\<open>os.environ.get('NETWORK_VOLUME', '/workspace')\<close>;
  \<^item> \<open>HUGGING_FACE_TOKEN\<close>: that variable of \<^verbatim>\<open>os.environ\<close>;
  \<^item> \<open>prompts\<close>, \<open>confirms\<close>: the values the successive calls of \<^verbatim>\<open>Prompt.ask\<close> and
    \<^verbatim>\<open>Confirm.ask\<close> return (the library has already validated them); an exhausted
    list is a closed standard input, \<^verbatim>\<open>EOFError\<close>;
  \<^item> \<open>can_exec\<close>: whether a program name can be started; \<open>run_exit\<close>: the return code of
    a command run to completion by \<^verbatim>\<open>subprocess.run\<close>;
  \<^item> \<open>fetch_poll k\<close>: what the \<open>k\<close>-th call of \<^verbatim>\<open>process.poll()\<close> returns (\<open>None\<close>: the
    fetch process is still running); \<open>polls\<close> counts the calls made so far;
  \<^item> \<open>sigint_at\<close>: the index of the interaction at which Ctrl-C arrives, if it does;
  \<^item> \<open>trace\<close>: the interactions performed so far, oldest first.
\<close>

type_synonym 'a prog = "world \<Rightarrow> (signal + 'a) \<times> world"

definition ret :: "'a \<Rightarrow> 'a prog" where
  "ret a w = (Inr a, w)"

definition raise :: "signal \<Rightarrow> 'a prog" where
  "raise s w = (Inl s, w)"

definition bind :: "'a prog \<Rightarrow> ('a \<Rightarrow> 'b prog) \<Rightarrow> 'b prog" where
  "bind m f w = (case m w of (Inl s, w') \<Rightarrow> (Inl s, w') | (Inr a, w') \<Rightarrow> f a w')"

definition seq :: "unit prog \<Rightarrow> 'b prog \<Rightarrow> 'b prog" where
  "seq m n = bind m (\<lambda>_. n)"

definition sys_exit :: "int \<Rightarrow> 'a prog" where
  "sys_exit n = raise (SystemExit n)"

text \<open>
  Every interaction is one entry of the trace. An interaction at which the interrupt
  arrives does not happen: \<open>KeyboardInterrupt\<close> is raised in its place.
\<close>

definition prim :: "(world \<Rightarrow> event) \<Rightarrow> 'a prog \<Rightarrow> 'a prog" where
  "prim ev act w =
     (if sigint_at w = Some (length (trace w))
      then (Inl KeyboardInterrupt, w\<lparr>trace := trace w @ [SIGINT]\<rparr>)
      else act (w\<lparr>trace := trace w @ [ev w]\<rparr>))"

definition console_print :: "string \<Rightarrow> unit prog" where
  "console_print s = prim (\<lambda>_. Print s) (ret ())"

definition console_clear :: "unit prog" where
  "console_clear = prim (\<lambda>_. Clear) (ret ())"

definition Prompt_ask :: "string \<Rightarrow> string prog" where
  "Prompt_ask q =
     prim (\<lambda>w. Ask q (case prompts w of [] \<Rightarrow> None | a # _ \<Rightarrow> Some a))
       (\<lambda>w. case prompts w of
              [] \<Rightarrow> (Inl (Exception ''EOFError''), w)
            | a # as \<Rightarrow> (Inr a, w\<lparr>prompts := as\<rparr>))"

definition Confirm_ask :: "string \<Rightarrow> bool prog" where
  "Confirm_ask q =
     prim (\<lambda>w. Confirm q (case confirms w of [] \<Rightarrow> None | a # _ \<Rightarrow> Some a))
       (\<lambda>w. case confirms w of
              [] \<Rightarrow> (Inl (Exception ''EOFError''), w)
            | a # as \<Rightarrow> (Inr a, w\<lparr>confirms := as\<rparr>))"

subsection \<open>File system\<close>

definition os_path_exists :: "string \<Rightarrow> bool prog" where
  "os_path_exists p = prim (\<lambda>_. Exists p) (\<lambda>w. (Inr (fs w p \<noteq> None), w))"

definition os_listdir :: "string \<Rightarrow> string list prog" where
  "os_listdir p =
     prim (\<lambda>_. ListDir p)
       (\<lambda>w. case fs w p of
              None \<Rightarrow> (Inl (Exception ''FileNotFoundError''), w)
            | Some File \<Rightarrow> (Inl (Exception ''NotADirectoryError''), w)
            | Some (Dir es) \<Rightarrow> (Inr es, w))"

definition os_chdir :: "string \<Rightarrow> unit prog" where
  "os_chdir p =
     prim (\<lambda>_. Chdir p)
       (\<lambda>w. case fs w p of
              None \<Rightarrow> (Inl (Exception ''FileNotFoundError''), w)
            | Some File \<Rightarrow> (Inl (Exception ''NotADirectoryError''), w)
            | Some (Dir es) \<Rightarrow> (Inr (), w))"

text \<open>\<^verbatim>\<open>posixpath.join\<close> of two components.\<close>

definition os_path_join :: "string \<Rightarrow> string \<Rightarrow> string" where
  "os_path_join a b =
     (if b \<noteq> [] \<and> hd b = CHR ''/'' then b
      else if a = [] \<or> last a = CHR ''/'' then a @ b
      else a @ ''/'' @ b)"

text \<open>
  The proper ancestors of a path, shortest first: its prefixes that end just before a
  slash (the root itself, the empty prefix, always exists and is not listed).
\<close>

definition ancestors :: "string \<Rightarrow> string list" where
  "ancestors p = [take i p. i \<leftarrow> [1..<length p], p ! i = CHR ''/'']"

definition dirname :: "string \<Rightarrow> string" where
  "dirname p = rev (tl (dropWhile (\<lambda>c. c \<noteq> CHR ''/'') (rev p)))"

text \<open>
  \<^verbatim>\<open>os.makedirs(p, exist_ok=True)\<close>: every missing ancestor and the path itself are
  created as directories; it fails as soon as one of them is a regular file, with
  \<^verbatim>\<open>NotADirectoryError\<close> for an ancestor and \<^verbatim>\<open>FileExistsError\<close> for the path itself. The
  directories created before the failure stay.
\<close>

fun mkdirs :: "string list \<Rightarrow> (string \<Rightarrow> node option) \<Rightarrow> bool \<times> (string \<Rightarrow> node option)" where
  "mkdirs [] f = (True, f)"
| "mkdirs (q # qs) f =
     (case f q of
        None \<Rightarrow> mkdirs qs (f(q \<mapsto> Dir []))
      | Some File \<Rightarrow> (False, f)
      | Some (Dir es) \<Rightarrow> mkdirs qs f)"

definition makedirs_error :: "string \<Rightarrow> (string \<Rightarrow> node option) \<Rightarrow> string" where
  "makedirs_error p f =
     (if fst (mkdirs (ancestors p) f) then ''FileExistsError'' else ''NotADirectoryError'')"

definition os_makedirs :: "string \<Rightarrow> unit prog" where
  "os_makedirs p =
     prim (\<lambda>_. MakeDirs p)
       (\<lambda>w. case mkdirs (ancestors p @ [p]) (fs w) of
              (True, f) \<Rightarrow> (Inr (), w\<lparr>fs := f\<rparr>)
            | (False, f) \<Rightarrow> (Inl (Exception (makedirs_error p (fs w))), w\<lparr>fs := f\<rparr>))"

text \<open>
  \<^verbatim>\<open>open(p, 'w')\<close>: the file is created or truncated when its directory exists; the
  call raises when the directory is missing or is a regular file, or when the path is
  itself a directory.
\<close>

definition open_w :: "string \<Rightarrow> unit prog" where
  "open_w p =
     prim (\<lambda>_. OpenW p)
       (\<lambda>w. case (if dirname p = [] then Some (Dir []) else fs w (dirname p)) of
              None \<Rightarrow> (Inl (Exception ''FileNotFoundError''), w)
            | Some File \<Rightarrow> (Inl (Exception ''NotADirectoryError''), w)
            | Some (Dir es) \<Rightarrow>
                (case fs w p of
                   Some (Dir es') \<Rightarrow> (Inl (Exception ''IsADirectoryError''), w)
                 | _ \<Rightarrow> (Inr (), w\<lparr>fs := (fs w)(p \<mapsto> File)\<rparr>)))"

subsection \<open>Processes\<close>

text \<open>
  \<^verbatim>\<open>subprocess.Popen(cmd, ...)\<close> and \<^verbatim>\<open>subprocess.run(cmd, ...)\<close> raise
  \<^verbatim>\<open>FileNotFoundError\<close> when the program cannot be started; the trace records a
  \<open>Popen\<close> or \<open>Run\<close> entry only for a process that was started. \<open>subprocess_run\<close> models
  a command that runs to completion and returns its return code.
\<close>

definition subprocess_Popen :: "string list \<Rightarrow> unit prog" where
  "subprocess_Popen cmd =
     prim (\<lambda>w. if can_exec w (hd cmd) then Popen cmd else ExecFailed cmd)
       (\<lambda>w. if can_exec w (hd cmd) then (Inr (), w)
            else (Inl (Exception ''FileNotFoundError''), w))"

definition subprocess_run :: "string list \<Rightarrow> (string \<times> string) list \<Rightarrow> int prog" where
  "subprocess_run cmd env =
     prim (\<lambda>w. if can_exec w (hd cmd) then Run cmd env else ExecFailed cmd)
       (\<lambda>w. if can_exec w (hd cmd) then (Inr (run_exit w cmd), w)
            else (Inl (Exception ''FileNotFoundError''), w))"

definition process_poll :: "int option prog" where
  "process_poll = prim (\<lambda>_. Poll) (\<lambda>w. (Inr (fetch_poll w (polls w)), w\<lparr>polls := Suc (polls w)\<rparr>))"

definition process_kill :: "unit prog" where
  "process_kill = prim (\<lambda>_. Kill) (ret ())"

definition time_sleep :: "nat \<Rightarrow> unit prog" where
  "time_sleep n = prim (\<lambda>_. Sleep n) (ret ())"

definition progress_add_task :: "string \<Rightarrow> unit prog" where
  "progress_add_task d = prim (\<lambda>_. ProgressTask d) (ret ())"

definition progress_update :: "unit prog" where
  "progress_update = prim (\<lambda>_. ProgressAdvance) (ret ())"

definition traceback_print_exc :: "unit prog" where
  "traceback_print_exc = prim (\<lambda>_. Traceback) (ret ())"

section \<open>The model registry\<close>

record model =
  name :: string
  mtype :: string
  hf_repo :: string
  hf_files :: "string list option"
  local_dir :: string
  toml :: string
  training_script :: "string option"
  requires_token :: bool
  model_file :: "string option"
  special_download :: "bool option"

definition MODELS :: "string \<Rightarrow> (string \<times> model) list" where
  "MODELS nv =
   [(''flux'',
      \<lparr>name = ''Flux'', mtype = ''Image'', hf_repo = ''black-forest-labs/FLUX.1-dev'',
       hf_files = None, local_dir = nv @ ''/models/flux'', toml = ''flux.toml'',
       training_script = Some ''start_flux_training.sh'', requires_token = True,
       model_file = Some ''flux1-dev.safetensors'', special_download = None\<rparr>),
    (''sdxl'',
      \<lparr>name = ''SDXL'', mtype = ''Image'', hf_repo = ''timoshishi/sdXL_v10VAEFix'',
       hf_files = Some [''sdXL_v10VAEFix.safetensors''], local_dir = nv @ ''/models'',
       toml = ''sdxl.toml'', training_script = Some ''start_sdxl_training.sh'',
       requires_token = False, model_file = Some ''sdXL_v10VAEFix.safetensors'',
       special_download = None\<rparr>),
    (''wan13'',
      \<lparr>name = ''Wan 1.3B'', mtype = ''Video'', hf_repo = ''Wan-AI/Wan2.1-T2V-1.3B'',
       hf_files = None, local_dir = nv @ ''/models/Wan/Wan2.1-T2V-1.3B'',
       toml = ''wan13_video.toml'', training_script = Some ''start_wan_t2v_13b_training.sh'',
       requires_token = False, model_file = Some ''diffusion_pytorch_model.safetensors'',
       special_download = None\<rparr>),
    (''wan14b_t2v'',
      \<lparr>name = ''Wan 14B Text-To-Video'', mtype = ''Video'', hf_repo = ''Wan-AI/Wan2.1-T2V-14B'',
       hf_files = None, local_dir = nv @ ''/models/Wan/Wan2.1-T2V-14B'',
       toml = ''wan14b_t2v.toml'', training_script = Some ''start_wan_t2v_14b_training.sh'',
       requires_token = False, model_file = Some ''diffusion_pytorch_model.safetensors'',
       special_download = None\<rparr>),
    (''wan14b_i2v'',
      \<lparr>name = ''Wan 14B Image-To-Video'', mtype = ''Video'',
       hf_repo = ''Wan-AI/Wan2.1-I2V-14B-480P'', hf_files = None,
       local_dir = nv @ ''/models/Wan/Wan2.1-I2V-14B-480P'', toml = ''wan14b_i2v.toml'',
       training_script = Some ''start_wan_i2v_480p_training.sh'', requires_token = False,
       model_file = Some ''diffusion_pytorch_model.safetensors'', special_download = None\<rparr>),
    (''qwen'',
      \<lparr>name = ''Qwen Image'', mtype = ''Image'', hf_repo = ''Qwen/Qwen-Image'',
       hf_files = None, local_dir = nv @ ''/models/Qwen-Image'', toml = ''qwen_toml.toml'',
       training_script = None, requires_token = False,
       model_file = Some ''model.safetensors'', special_download = None\<rparr>),
    (''z_image_turbo'',
      \<lparr>name = ''Z Image Turbo'', mtype = ''Image'', hf_repo = ''Comfy-Org/z_image_turbo'',
       hf_files = None, local_dir = nv @ ''/models/z_image'', toml = ''z_image_toml.toml'',
       training_script = None, requires_token = False,
       model_file = None, special_download = Some True\<rparr>)]"

definition WORKING_DIR :: "string \<Rightarrow> string" where
  "WORKING_DIR nv = nv @ ''/diffusion-pipe-working-folder''"

text \<open>\<^verbatim>\<open>MODELS[model_key]\<close>: a missing key raises \<^verbatim>\<open>KeyError\<close>.\<close>

definition MODELS_get :: "string \<Rightarrow> model prog" where
  "MODELS_get model_key w =
     (case map_of (MODELS (NETWORK_VOLUME w)) model_key of
        None \<Rightarrow> (Inl (Exception ''KeyError''), w)
      | Some m \<Rightarrow> (Inr m, w))"

definition MODELS_get_nv :: "string prog" where
  "MODELS_get_nv w = (Inr (NETWORK_VOLUME w), w)"

text \<open>Python truthiness of an optional string: \<^verbatim>\<open>None\<close> and \<^verbatim>\<open>''\<close> are false.\<close>

fun truthy :: "string option \<Rightarrow> bool" where
  "truthy None = False"
| "truthy (Some s) = (s \<noteq> [])"

section \<open>Decimal numerals in messages\<close>

definition digit :: "nat \<Rightarrow> char" where
  "digit d = char_of (48 + d)"

function str_nat :: "nat \<Rightarrow> string" where
  "str_nat n = (if n < 10 then [digit n] else str_nat (n div 10) @ [digit (n mod 10)])"
  by pat_completeness auto
termination
  by (relation "measure id") auto

declare str_nat.simps [simp del]

definition str_int :: "int \<Rightarrow> string" where
  "str_int i = (if i < 0 then CHR ''-'' # str_nat (nat (- i)) else str_nat (nat i))"

section \<open>download_model\<close>

definition timeout :: nat where
  "timeout = 10800"

text \<open>
  One turn of the \<^verbatim>\<open>while process.poll() is None\<close> loop: the test, then the body. It
  either leaves the loop (\<open>Stop\<close>: with the return code of the process, or with \<open>None\<close>
  when the body has killed the process and returned \<open>False\<close>) or goes round again with
  the new value of \<^verbatim>\<open>elapsed\<close>.
\<close>

datatype turn = Again nat | Stop "int option"

definition poll_turn :: "nat \<Rightarrow> turn prog" where
  "poll_turn elapsed =
     bind process_poll (\<lambda>returncode.
       case returncode of
         Some rc \<Rightarrow> ret (Stop (Some rc))
       | None \<Rightarrow>
           seq (time_sleep 3)
           (seq progress_update
           (if elapsed + 3 \<ge> timeout
            then seq (console_print ''Download timed out after 3 hours!'')
                 (seq process_kill (ret (Stop None)))
            else ret (Again (elapsed + 3)))))"

text \<open>
  The loop of lines 324--332. It ends because \<^verbatim>\<open>elapsed\<close> grows by 3 in every turn
  and the body returns once it has reached the ceiling.
\<close>

function wait_loop :: "nat \<Rightarrow> int option prog" where
  "wait_loop elapsed w =
     (case poll_turn elapsed w of
        (Inl s, w') \<Rightarrow> (Inl s, w')
      | (Inr (Stop r), w') \<Rightarrow> (Inr r, w')
      | (Inr (Again e), w') \<Rightarrow> wait_loop e w')"
  by pat_completeness auto
termination
proof (relation "measure (\<lambda>(elapsed, w). timeout - elapsed)")
  show "wf (measure (\<lambda>(elapsed, w). timeout - elapsed))" by simp
next
  fix elapsed w x1 w' y e
  assume "(x1, w') = poll_turn elapsed w" "x1 = Inr y" "y = Again e"
  then have "poll_turn elapsed w = (Inr (Again e), w')" by simp
  then have "e = elapsed + 3 \<and> e < timeout"
    by (auto simp: poll_turn_def bind_def seq_def ret_def prim_def process_poll_def
        time_sleep_def progress_update_def console_print_def process_kill_def
        split: if_splits option.splits prod.splits sum.splits)
  then show "((e, w'), (elapsed, w)) \<in> measure (\<lambda>(elapsed, w). timeout - elapsed)"
    by auto
qed

declare wait_loop.simps [simp del]

text \<open>
  Lines 312--340: supervising the fetch process once it has been started.
\<close>

definition supervise :: "string \<Rightarrow> bool prog" where
  "supervise log_file =
     seq (progress_add_task ''Downloading...'')
     (bind (wait_loop 0) (\<lambda>r.
        case r of
          None \<Rightarrow> ret False
        | Some returncode \<Rightarrow>
            if returncode \<noteq> 0
            then seq (console_print (''Download failed with exit code '' @ str_int returncode))
                 (seq (console_print (''Check log: '' @ log_file))
                 (ret False))
            else seq (console_print ''Download complete!'') (ret True)))"

text \<open>
  Lines 285--291: the check for an artifact that is already there. The result says
  whether \<^verbatim>\<open>download_model\<close> returns \<open>True\<close> at line 291.
\<close>

definition already_downloaded :: "model \<Rightarrow> bool prog" where
  "already_downloaded model =
     (if truthy (model_file model)
      then bind (os_path_exists (os_path_join (local_dir model) (the (model_file model))))
             (\<lambda>found.
               if found
               then seq (console_print (''Model already exists at: ''
                           @ os_path_join (local_dir model) (the (model_file model))))
                    (bind (Confirm_ask ''Skip download?'') (\<lambda>skip.
                       if skip then seq (console_print ''Using existing model'') (ret True)
                       else ret False))
               else ret False)
      else ret False)"

definition fetch_cmd :: "model \<Rightarrow> string option \<Rightarrow> string list" where
  "fetch_cmd model token =
     [''huggingface-cli'', ''download'', hf_repo model, ''--local-dir'', local_dir model]
     @ (case hf_files model of None \<Rightarrow> [] | Some files \<Rightarrow> files)
     @ (if truthy token then [''--token'', the token] else [])"

definition download_model :: "string \<Rightarrow> string option \<Rightarrow> bool prog" where
  "download_model model_key token =
     bind MODELS_get_nv (\<lambda>nv.
     bind (MODELS_get model_key) (\<lambda>model.
     seq (console_print [])
     (seq (console_print (''Downloading '' @ name model))
     (seq (console_print [])
     (seq (os_makedirs (local_dir model))
     (bind (already_downloaded model) (\<lambda>skipped.
       if skipped then ret True
       else
         seq (console_print ''Starting download in background...'')
         (seq (console_print (''To monitor: tail -f '' @ nv @ ''/logs/model_download.log''))
         (seq (console_print [])
         (seq (open_w (nv @ ''/logs/model_download.log''))
         (seq (subprocess_Popen (fetch_cmd model token))
         (supervise (nv @ ''/logs/model_download.log'')))))))))))))"

section \<open>Menus and the credential\<close>

definition show_welcome :: "unit prog" where
  "show_welcome =
     seq console_clear
     (seq (console_print ''Diffusion Pipe Helper - Interactive Training'')
     (console_print []))"

definition model_map :: "(string \<times> string) list" where
  "model_map =
     [(''1'', ''flux''), (''2'', ''sdxl''), (''3'', ''wan13''), (''4'', ''wan14b_t2v''),
      (''5'', ''wan14b_i2v''), (''6'', ''qwen''), (''7'', ''z_image_turbo'')]"

text \<open>A dictionary subscript \<^verbatim>\<open>d[k]\<close>: a missing key raises \<^verbatim>\<open>KeyError\<close>.\<close>

definition subscript :: "(string \<times> 'a) list \<Rightarrow> string \<Rightarrow> 'a prog" where
  "subscript d k w =
     (case map_of d k of
        None \<Rightarrow> (Inl (Exception ''KeyError''), w)
      | Some v \<Rightarrow> (Inr v, w))"

definition show_menu :: "string prog" where
  "show_menu =
     seq (console_print ''Select Model to Train'')
     (seq (console_print [])
     (bind (Prompt_ask ''Enter your choice'') (\<lambda>choice.
        subscript model_map choice)))"

definition environ_get_token :: "string option prog" where
  "environ_get_token w = (Inr (HUGGING_FACE_TOKEN w), w)"

definition environ_set_token :: "string \<Rightarrow> unit prog" where
  "environ_set_token t w = (Inr (), w\<lparr>HUGGING_FACE_TOKEN := Some t\<rparr>)"

definition get_api_token :: "string \<Rightarrow> string option prog" where
  "get_api_token model_key =
     bind (MODELS_get model_key) (\<lambda>model.
       if \<not> requires_token model then ret None
       else
         bind environ_get_token (\<lambda>token.
           if truthy token \<and> token \<noteq> Some ''token_here''
           then seq (console_print ''Hugging Face token already set'') (ret token)
           else
             seq (console_print [])
             (seq (console_print ''Hugging Face token required for this model'')
             (seq (console_print ''Get your token from: https://huggingface.co/settings/tokens'')
             (seq (console_print [])
             (bind (Prompt_ask ''Enter your Hugging Face token'') (\<lambda>token.
                if token = []
                then seq (console_print ''Token cannot be empty. Exiting.'') (sys_exit 1)
                else
                  seq (environ_set_token token)
                  (seq (console_print ''Token set successfully'')
                  (ret (Some token))))))))))"

definition mode_map :: "(string \<times> string) list" where
  "mode_map = [(''1'', ''images''), (''2'', ''videos''), (''3'', ''both''), (''4'', ''skip'')]"

definition get_caption_mode :: "string prog" where
  "get_caption_mode =
     seq (console_print [])
     (seq (console_print ''Dataset Captioning'')
     (seq (console_print [])
     (seq (console_print ''1 Caption images only; 2 Caption videos only; 3 Caption both images and videos; 4 Skip captioning'')
     (seq (console_print [])
     (bind (Prompt_ask ''Enter your choice'') (\<lambda>choice.
        subscript mode_map choice))))))"

section \<open>validate_dataset\<close>

text \<open>
  \<^verbatim>\<open>str.lower()\<close> on the letters A--Z; \<^verbatim>\<open>str.endswith\<close> with a tuple of suffixes. (No
  character outside ASCII is lowered to a letter of the six extensions in a way that
  would make a name end with one of them, so the restriction to A--Z does not change
  which names match.)
\<close>

definition lower_char :: "char \<Rightarrow> char" where
  "lower_char c =
     (if 65 \<le> (of_char c :: nat) \<and> (of_char c :: nat) \<le> 90
      then char_of ((of_char c :: nat) + 32) else c)"

definition lower :: "string \<Rightarrow> string" where
  "lower s = map lower_char s"

definition endswith :: "string \<Rightarrow> string list \<Rightarrow> bool" where
  "endswith s exts =
     list_ex (\<lambda>e. length e \<le> length s \<and> drop (length s - length e) s = e) exts"

definition image_exts :: "string list" where
  "image_exts = [''.jpg'', ''.jpeg'', ''.png'']"

definition video_exts :: "string list" where
  "video_exts = [''.mp4'', ''.avi'', ''.mov'']"

fun print_all :: "string list \<Rightarrow> unit prog" where
  "print_all [] = ret ()"
| "print_all (issue # issues) = seq (console_print issue) (print_all issues)"

definition validate_dataset :: "string \<Rightarrow> bool prog" where
  "validate_dataset caption_mode =
     bind MODELS_get_nv (\<lambda>nv.
     seq (console_print [])
     (seq (console_print ''Dataset Validation'')
     (seq (console_print [])
     (bind
        (if caption_mode \<in> set [''images'', ''both'']
         then bind (os_path_exists (nv @ ''/image_dataset_here'')) (\<lambda>found.
                if \<not> found
                then ret [''Image dataset folder not found: '' @ nv @ ''/image_dataset_here'']
                else bind (os_listdir (nv @ ''/image_dataset_here'')) (\<lambda>files.
                       if length (filter (\<lambda>f. endswith (lower f) image_exts) files) = 0
                       then ret [''No images found in: '' @ nv @ ''/image_dataset_here'']
                       else seq (console_print (''Found ''
                                   @ str_nat (length (filter (\<lambda>f. endswith (lower f) image_exts) files))
                                   @ '' images''))
                            (ret [])))
         else ret [])
     (\<lambda>issues.
     bind
        (if caption_mode \<in> set [''videos'', ''both'']
         then bind (os_path_exists (nv @ ''/video_dataset_here'')) (\<lambda>found.
                if \<not> found
                then ret (issues @ [''Video dataset folder not found: '' @ nv @ ''/video_dataset_here''])
                else bind (os_listdir (nv @ ''/video_dataset_here'')) (\<lambda>files.
                       if length (filter (\<lambda>f. endswith (lower f) video_exts) files) = 0
                       then ret (issues @ [''No videos found in: '' @ nv @ ''/video_dataset_here''])
                       else seq (console_print (''Found ''
                                   @ str_nat (length (filter (\<lambda>f. endswith (lower f) video_exts) files))
                                   @ '' videos''))
                            (ret issues)))
         else ret issues)
     (\<lambda>issues.
     seq
        (if issues \<noteq> []
         then seq (console_print [])
              (seq (print_all issues)
              (seq (console_print [])
              (bind (Confirm_ask ''Continue anyway?'') (\<lambda>continue.
                 if \<not> continue then sys_exit 0 else ret ()))))
         else ret ())
     (seq (console_print [])
     (ret True))))))))"

section \<open>launch_training\<close>

definition training_env :: "(string \<times> string) list" where
  "training_env = [(''NCCL_P2P_DISABLE'', ''1''), (''NCCL_IB_DISABLE'', ''1'')]"

text \<open>
  \<open>Run cmd env\<close> records the entries that the call adds to the inherited environment
  (none for the two \<^verbatim>\<open>pip\<close> calls, which pass no \<^verbatim>\<open>env\<close>). The return code of
  \<^verbatim>\<open>subprocess.run\<close> is dropped by every call, as in the source.
\<close>

definition run_ignoring :: "string list \<Rightarrow> (string \<times> string) list \<Rightarrow> unit prog" where
  "run_ignoring cmd env = bind (subprocess_run cmd env) (\<lambda>_. ret ())"

definition launch_training :: "string \<Rightarrow> unit prog" where
  "launch_training model_key =
     bind MODELS_get_nv (\<lambda>nv.
     bind (MODELS_get model_key) (\<lambda>model.
     seq (console_print [])
     (seq (console_print (''Starting Training: '' @ name model))
     (seq (console_print [])
     (bind (os_path_exists (WORKING_DIR nv @ ''/diffusion_pipe'')) (\<lambda>found.
     seq
        (if \<not> found
         then seq (console_print (''Error: '' @ WORKING_DIR nv @ ''/diffusion_pipe'' @ '' not found!''))
              (seq (console_print ''Run setup.sh first!'')
              (sys_exit 1))
         else ret ())
     (seq (os_chdir (WORKING_DIR nv @ ''/diffusion_pipe''))
     (seq (console_print ''Upgrading dependencies...'')
     (seq (run_ignoring [''pip'', ''install'', ''transformers'', ''-U'', ''-q''] [])
     (seq (run_ignoring [''pip'', ''install'', ''--upgrade'', ''peft>=0.17.0'', ''-q''] [])
     (seq (console_print ''Dependencies updated'')
     (seq (console_print [])
     (seq
        (if model_key \<in> set [''qwen'', ''z_image_turbo'']
         then seq (console_print ''IMPORTANT: Model initialization can take several minutes.'')
              (seq (console_print [])
              (seq (console_print ''Waiting 10 seconds...'')
              (seq (time_sleep 10)
              (console_print []))))
         else ret ())
     (seq (console_print ''Training is starting...'')
     (seq (console_print [])
     (seq
        (if truthy (training_script model)
         then bind (os_path_exists (WORKING_DIR nv @ ''/training_scripts/''
                                     @ the (training_script model))) (\<lambda>found.
                if found
                then run_ignoring [''bash'', WORKING_DIR nv @ ''/training_scripts/''
                                              @ the (training_script model)] training_env
                else seq (console_print (''Training script not found: '' @ WORKING_DIR nv
                            @ ''/training_scripts/'' @ the (training_script model)))
                     (sys_exit 1))
         else run_ignoring [''deepspeed'', ''--num_gpus=1'', ''train.py'', ''--deepspeed'',
                            ''--config'', ''examples/'' @ toml model] training_env)
     (seq (console_print [])
     (console_print ''Training completed!''))))))))))))))))))"

section \<open>main\<close>

text \<open>The body of the \<^verbatim>\<open>try\<close> block of \<^verbatim>\<open>main\<close>, lines 417--457.\<close>

definition main_body :: "unit prog" where
  "main_body =
     seq show_welcome
     (bind show_menu (\<lambda>model_key.
     bind (MODELS_get model_key) (\<lambda>model.
     seq (console_print [])
     (seq (console_print (''Selected: '' @ name model))
     (bind (get_api_token model_key) (\<lambda>token.
     bind get_caption_mode (\<lambda>caption_mode.
     bind (validate_dataset caption_mode) (\<lambda>_.
     seq (console_print ''Configuration Summary'')
     (seq (console_print [])
     (bind (Confirm_ask ''Start training with this configuration?'') (\<lambda>go.
     seq
        (if \<not> go
         then seq (console_print ''Cancelled by user'') (sys_exit 0)
         else ret ())
     (bind (download_model model_key token) (\<lambda>downloaded.
     seq
        (if \<not> downloaded
         then seq (console_print ''Download failed, cannot continue'') (sys_exit 1)
         else ret ())
     (launch_training model_key))))))))))))))"

text \<open>
  \<^verbatim>\<open>try: ... except KeyboardInterrupt: ... except Exception as e: ...\<close>: the two handlers of
  lines 459--468. \<open>SystemExit\<close> passes through both.
\<close>

definition main :: "unit prog" where
  "main w =
     (case main_body w of
        (Inl KeyboardInterrupt, w') \<Rightarrow>
          seq (console_print [])
          (seq (console_print ''Cancelled by user'')
          (sys_exit 0)) w'
      | (Inl (Exception e), w') \<Rightarrow>
          seq (console_print [])
          (seq (console_print (''Error: '' @ e))
          (seq traceback_print_exc
          (sys_exit 1))) w'
      | (r, w') \<Rightarrow> (r, w'))"

text \<open>
  The exit status of the interpreter: that of \<^verbatim>\<open>sys.exit\<close>, 0 when the script runs to
  its end, 1 for an exception nobody caught, and 130 for a \<open>KeyboardInterrupt\<close> nobody
  caught.
\<close>

fun exit_code :: "signal + unit \<Rightarrow> int" where
  "exit_code (Inr u) = 0"
| "exit_code (Inl (SystemExit n)) = n"
| "exit_code (Inl KeyboardInterrupt) = 130"
| "exit_code (Inl (Exception e)) = 1"

section \<open>Reasoning about runs\<close>

text \<open>
  \<open>wp p Q w\<close>: the run of \<open>p\<close> from \<open>w\<close> ends in a result and a world that satisfy \<open>Q\<close>.
  \<open>new_events p w\<close> are the interactions that this run adds to the trace.
\<close>

definition wp :: "'a prog \<Rightarrow> ((signal + 'a) \<Rightarrow> world \<Rightarrow> bool) \<Rightarrow> world \<Rightarrow> bool" where
  "wp p Q w = Q (fst (p w)) (snd (p w))"

text \<open>
  The postcondition of the first half of a sequence: an exception ends the run, a value
  is passed to the second half.
\<close>

definition kont ::
  "('a \<Rightarrow> 'b prog) \<Rightarrow> ((signal + 'b) \<Rightarrow> world \<Rightarrow> bool) \<Rightarrow> (signal + 'a) \<Rightarrow> world \<Rightarrow> bool" where
  "kont f Q r w = (case r of Inl s \<Rightarrow> Q (Inl s) w | Inr a \<Rightarrow> wp (f a) Q w)"

definition new_events :: "'a prog \<Rightarrow> world \<Rightarrow> event list" where
  "new_events p w = drop (length (trace w)) (trace (snd (p w)))"

definition interrupted :: "world \<Rightarrow> bool" where
  "interrupted w = (sigint_at w = Some (length (trace w)))"

definition parent_node :: "(string \<Rightarrow> node option) \<Rightarrow> string \<Rightarrow> node option" where
  "parent_node f p = (if dirname p = [] then Some (Dir []) else f (dirname p))"

fun is_Dir :: "node option \<Rightarrow> bool" where
  "is_Dir (Some (Dir es)) = True"
| "is_Dir _ = False"

fun is_Popen :: "event \<Rightarrow> bool" where
  "is_Popen (Popen cmd) = True"
| "is_Popen _ = False"

fun is_Run :: "event \<Rightarrow> bool" where
  "is_Run (Run cmd env) = True"
| "is_Run _ = False"

text \<open>The number of turns the loop still makes when the process never exits.\<close>

definition turns_left :: "nat \<Rightarrow> nat" where
  "turns_left elapsed = max 1 ((timeout - elapsed + 2) div 3)"

section \<open>Sample worlds\<close>

text \<open>
  A volume with a \<^verbatim>\<open>logs\<close> directory and nothing else, no answers queued, every
  program available, and a fetch process that never exits.
\<close>

definition w_hang :: world where
  "w_hang = \<lparr>NETWORK_VOLUME = ''/workspace'', HUGGING_FACE_TOKEN = None,
     fs = [''/workspace'' \<mapsto> Dir [''logs''], ''/workspace/logs'' \<mapsto> Dir []],
     prompts = [], confirms = [], can_exec = (\<lambda>_. True), run_exit = (\<lambda>_. 0),
     fetch_poll = (\<lambda>_. None), polls = 0, sigint_at = None, trace = []\<rparr>"

text \<open>The same volume, with a fetch process that exits with code 1 at the third poll.\<close>

definition w_fail :: world where
  "w_fail = w_hang\<lparr>fetch_poll := (\<lambda>k. if k < 2 then None else Some 1)\<rparr>"

text \<open>
  What a supervision may add to the trace, and runs that only add entries of one kind.
\<close>

fun supervision_event :: "event \<Rightarrow> bool" where
  "supervision_event (Print s) = True"
| "supervision_event Poll = True"
| "supervision_event (Sleep n) = True"
| "supervision_event (ProgressTask d) = True"
| "supervision_event ProgressAdvance = True"
| "supervision_event Kill = True"
| "supervision_event SIGINT = True"
| "supervision_event _ = False"

definition emits :: "(event \<Rightarrow> bool) \<Rightarrow> world \<Rightarrow> (signal + 'a) \<Rightarrow> world \<Rightarrow> bool" where
  "emits P w r w' = (\<exists>t. trace w' = trace w @ t \<and> list_all P t)"

definition emitting :: "(event \<Rightarrow> bool) \<Rightarrow> 'a prog \<Rightarrow> bool" where
  "emitting P p = (\<forall>w. wp p (emits P w) w)"

text \<open>
  A volume on which the artifact of \<^verbatim>\<open>sdxl\<close> is already there, with a user who accepts
  the skip; and the descriptor of \<^verbatim>\<open>sdxl\<close> on that volume.
\<close>

definition w_have :: world where
  "w_have = w_hang\<lparr>fs := [''/workspace'' \<mapsto> Dir [''models''],
                           ''/workspace/models'' \<mapsto> Dir [''sdXL_v10VAEFix.safetensors''],
                           ''/workspace/models/sdXL_v10VAEFix.safetensors'' \<mapsto> File],
                    confirms := [True]\<rparr>"

definition sdxl :: model where
  "sdxl = the (map_of (MODELS ''/workspace'') ''sdxl'')"

fun is_Exists :: "event \<Rightarrow> bool" where
  "is_Exists (Exists p) = True"
| "is_Exists _ = False"

text \<open>No process is started before the first existence check (of any path; of the path \<open>p\<close>).\<close>

fun spawn_checked :: "event list \<Rightarrow> bool" where
  "spawn_checked [] = True"
| "spawn_checked (e # es) = (is_Exists e \<or> (\<not> is_Popen e \<and> spawn_checked es))"

fun checked_before :: "string \<Rightarrow> event list \<Rightarrow> bool" where
  "checked_before p [] = True"
| "checked_before p (e # es) = (e = Exists p \<or> (\<not> is_Popen e \<and> checked_before p es))"

text \<open>
  The training command of a descriptor: its script under \<^verbatim>\<open>bash\<close> when it names one, the
  \<^verbatim>\<open>deepspeed\<close> command on its configuration otherwise. Before it come the two dependency
  upgrades. The sample volumes below have the training-engine checkout; on \<open>w_train\<close> the
  script of \<^verbatim>\<open>flux\<close> is there as well. Every command run on them returns the code 1.
\<close>

definition training_cmd :: "string \<Rightarrow> model \<Rightarrow> string list" where
  "training_cmd nv m =
     (if truthy (training_script m)
      then [''bash'', WORKING_DIR nv @ ''/training_scripts/'' @ the (training_script m)]
      else [''deepspeed'', ''--num_gpus=1'', ''train.py'', ''--deepspeed'',
            ''--config'', ''examples/'' @ toml m])"

definition pip_runs :: "event list" where
  "pip_runs = [Run [''pip'', ''install'', ''transformers'', ''-U'', ''-q''] [],
               Run [''pip'', ''install'', ''--upgrade'', ''peft>=0.17.0'', ''-q''] []]"

definition w_noscript :: world where
  "w_noscript = w_hang\<lparr>fs := [''/workspace/diffusion-pipe-working-folder/diffusion_pipe''
                                  \<mapsto> Dir [''train.py'']],
                        run_exit := (\<lambda>_. 1)\<rparr>"

definition w_train :: world where
  "w_train = w_noscript\<lparr>fs := (fs w_noscript)
     (''/workspace/diffusion-pipe-working-folder/training_scripts/start_flux_training.sh''
        \<mapsto> File)\<rparr>"

definition flux :: model where
  "flux = the (map_of (MODELS ''/workspace'') ''flux'')"

fun is_Ask :: "event \<Rightarrow> bool" where
  "is_Ask (Ask q a) = True"
| "is_Ask _ = False"

fun is_MakeDirs :: "event \<Rightarrow> bool" where
  "is_MakeDirs (MakeDirs p) = True"
| "is_MakeDirs _ = False"

text \<open>
  The spec's words for a credential that is set: non-empty and not the placeholder.
\<close>

definition preset :: "string option \<Rightarrow> bool" where
  "preset tok = (\<exists>t. tok = Some t \<and> t \<noteq> [] \<and> t \<noteq> ''token_here'')"

text \<open>
  A user who picks \<^verbatim>\<open>flux\<close> and then enters an empty token, with the placeholder in the
  environment.
\<close>

definition w_notoken :: world where
  "w_notoken = w_hang\<lparr>HUGGING_FACE_TOKEN := Some ''token_here'', prompts := [''1'', []]\<rparr>"

lemma wp_bind: "wp (bind m f) Q w = wp m (kont f Q) w"
  by (simp add: wp_def kont_def bind_def split: prod.splits sum.splits)

lemma wp_seq: "wp (seq m n) Q w = wp m (kont (\<lambda>_. n) Q) w"
  by (simp add: seq_def wp_bind)

lemma kont_Inl: "kont f Q (Inl s) w = Q (Inl s) w"
  by (simp add: kont_def)

lemma kont_Inr: "kont f Q (Inr a) w = wp (f a) Q w"
  by (simp add: kont_def)

lemma kont_cong: "r = r' \<Longrightarrow> w = w' \<Longrightarrow> kont f Q r w = kont f Q r' w'"
  by simp

lemma wp_ret: "wp (ret a) Q w = Q (Inr a) w"
  by (simp add: wp_def ret_def)

lemma wp_raise: "wp (raise s) Q w = Q (Inl s) w"
  by (simp add: wp_def raise_def)

lemma wp_sys_exit: "wp (sys_exit n) Q w = Q (Inl (SystemExit n)) w"
  by (simp add: sys_exit_def wp_raise)

lemma wp_if: "wp (if c then p else q) Q w = ((c \<longrightarrow> wp p Q w) \<and> (\<not> c \<longrightarrow> wp q Q w))"
  by simp

lemma wp_case_option:
  "wp (case x of None \<Rightarrow> a | Some y \<Rightarrow> b y) Q w =
     ((x = None \<longrightarrow> wp a Q w) \<and> (\<forall>y. x = Some y \<longrightarrow> wp (b y) Q w))"
  by (simp split: option.splits)

lemma wp_conseq:
  assumes "wp p Q' w" and "\<And>r w'. Q' r w' \<Longrightarrow> Q r w'"
  shows "wp p Q w"
  using assms by (simp add: wp_def)

lemma wp_prim:
  "wp (prim ev act) Q w =
     ((interrupted w \<longrightarrow> Q (Inl KeyboardInterrupt) (w\<lparr>trace := trace w @ [SIGINT]\<rparr>)) \<and>
      (\<not> interrupted w \<longrightarrow> wp act Q (w\<lparr>trace := trace w @ [ev w]\<rparr>)))"
  by (simp add: wp_def prim_def interrupted_def)

lemma wp_MODELS_get:
  "wp (MODELS_get k) Q w =
     ((map_of (MODELS (NETWORK_VOLUME w)) k = None \<longrightarrow> Q (Inl (Exception ''KeyError'')) w) \<and>
      (\<forall>m. map_of (MODELS (NETWORK_VOLUME w)) k = Some m \<longrightarrow> Q (Inr m) w))"
  by (simp add: wp_def MODELS_get_def split: option.splits)

lemma wp_subscript:
  "wp (subscript d k) Q w =
     ((map_of d k = None \<longrightarrow> Q (Inl (Exception ''KeyError'')) w) \<and>
      (\<forall>v. map_of d k = Some v \<longrightarrow> Q (Inr v) w))"
  by (simp add: wp_def subscript_def split: option.splits)

lemma wp_MODELS_get_nv: "wp MODELS_get_nv Q w = Q (Inr (NETWORK_VOLUME w)) w"
  by (simp add: wp_def MODELS_get_nv_def)

lemma wp_environ_get_token: "wp environ_get_token Q w = Q (Inr (HUGGING_FACE_TOKEN w)) w"
  by (simp add: wp_def environ_get_token_def)

lemma wp_environ_set_token:
  "wp (environ_set_token t) Q w = Q (Inr ()) (w\<lparr>HUGGING_FACE_TOKEN := Some t\<rparr>)"
  by (simp add: wp_def environ_set_token_def)

lemma wp_os_makedirs:
  "wp (os_makedirs p) Q w =
     ((interrupted w \<longrightarrow> Q (Inl KeyboardInterrupt) (w\<lparr>trace := trace w @ [SIGINT]\<rparr>)) \<and>
      (\<not> interrupted w \<longrightarrow>
        (fst (mkdirs (ancestors p @ [p]) (fs w)) \<longrightarrow>
           Q (Inr ()) (w\<lparr>trace := trace w @ [MakeDirs p],
                          fs := snd (mkdirs (ancestors p @ [p]) (fs w))\<rparr>)) \<and>
        (\<not> fst (mkdirs (ancestors p @ [p]) (fs w)) \<longrightarrow>
           Q (Inl (Exception (makedirs_error p (fs w))))
             (w\<lparr>trace := trace w @ [MakeDirs p],
                 fs := snd (mkdirs (ancestors p @ [p]) (fs w))\<rparr>))))"
  by (simp add: os_makedirs_def wp_prim) (auto simp: wp_def split: prod.splits bool.splits)

lemma wp_open_w:
  "wp (open_w p) Q w =
     ((interrupted w \<longrightarrow> Q (Inl KeyboardInterrupt) (w\<lparr>trace := trace w @ [SIGINT]\<rparr>)) \<and>
      (\<not> interrupted w \<longrightarrow>
        (parent_node (fs w) p = None \<longrightarrow>
           Q (Inl (Exception ''FileNotFoundError'')) (w\<lparr>trace := trace w @ [OpenW p]\<rparr>)) \<and>
        (parent_node (fs w) p = Some File \<longrightarrow>
           Q (Inl (Exception ''NotADirectoryError'')) (w\<lparr>trace := trace w @ [OpenW p]\<rparr>)) \<and>
        (is_Dir (parent_node (fs w) p) \<longrightarrow> is_Dir (fs w p) \<longrightarrow>
           Q (Inl (Exception ''IsADirectoryError'')) (w\<lparr>trace := trace w @ [OpenW p]\<rparr>)) \<and>
        (is_Dir (parent_node (fs w) p) \<longrightarrow> \<not> is_Dir (fs w p) \<longrightarrow>
           Q (Inr ()) (w\<lparr>trace := trace w @ [OpenW p], fs := (fs w)(p \<mapsto> File)\<rparr>))))"
  by (simp add: open_w_def wp_prim)
     (auto simp: wp_def parent_node_def split: option.splits node.splits if_splits)

lemma wp_Confirm_ask:
  "wp (Confirm_ask q) Q w =
     ((interrupted w \<longrightarrow> Q (Inl KeyboardInterrupt) (w\<lparr>trace := trace w @ [SIGINT]\<rparr>)) \<and>
      (\<not> interrupted w \<longrightarrow>
        (confirms w = [] \<longrightarrow>
           Q (Inl (Exception ''EOFError'')) (w\<lparr>trace := trace w @ [Confirm q None]\<rparr>)) \<and>
        (\<forall>a as. confirms w = a # as \<longrightarrow>
           Q (Inr a) (w\<lparr>trace := trace w @ [Confirm q (Some a)], confirms := as\<rparr>))))"
  by (simp add: Confirm_ask_def wp_prim) (auto simp: wp_def split: list.splits)

lemma wp_Prompt_ask:
  "wp (Prompt_ask q) Q w =
     ((interrupted w \<longrightarrow> Q (Inl KeyboardInterrupt) (w\<lparr>trace := trace w @ [SIGINT]\<rparr>)) \<and>
      (\<not> interrupted w \<longrightarrow>
        (prompts w = [] \<longrightarrow>
           Q (Inl (Exception ''EOFError'')) (w\<lparr>trace := trace w @ [Ask q None]\<rparr>)) \<and>
        (\<forall>a as. prompts w = a # as \<longrightarrow>
           Q (Inr a) (w\<lparr>trace := trace w @ [Ask q (Some a)], prompts := as\<rparr>))))"
  by (simp add: Prompt_ask_def wp_prim) (auto simp: wp_def split: list.splits)

lemma wp_subprocess_Popen:
  "wp (subprocess_Popen cmd) Q w =
     ((interrupted w \<longrightarrow> Q (Inl KeyboardInterrupt) (w\<lparr>trace := trace w @ [SIGINT]\<rparr>)) \<and>
      (\<not> interrupted w \<longrightarrow>
        (can_exec w (hd cmd) \<longrightarrow> Q (Inr ()) (w\<lparr>trace := trace w @ [Popen cmd]\<rparr>)) \<and>
        (\<not> can_exec w (hd cmd) \<longrightarrow>
           Q (Inl (Exception ''FileNotFoundError'')) (w\<lparr>trace := trace w @ [ExecFailed cmd]\<rparr>))))"
  by (simp add: subprocess_Popen_def wp_prim) (auto simp: wp_def)

lemma wp_run_ignoring:
  "wp (run_ignoring cmd env) Q w =
     ((interrupted w \<longrightarrow> Q (Inl KeyboardInterrupt) (w\<lparr>trace := trace w @ [SIGINT]\<rparr>)) \<and>
      (\<not> interrupted w \<longrightarrow>
        (can_exec w (hd cmd) \<longrightarrow> Q (Inr ()) (w\<lparr>trace := trace w @ [Run cmd env]\<rparr>)) \<and>
        (\<not> can_exec w (hd cmd) \<longrightarrow>
           Q (Inl (Exception ''FileNotFoundError'')) (w\<lparr>trace := trace w @ [ExecFailed cmd]\<rparr>))))"
  by (simp add: run_ignoring_def subprocess_run_def wp_bind wp_prim wp_ret) (auto simp: wp_def ret_def kont_def)

lemma wp_os_path_exists:
  "wp (os_path_exists p) Q w =
     ((interrupted w \<longrightarrow> Q (Inl KeyboardInterrupt) (w\<lparr>trace := trace w @ [SIGINT]\<rparr>)) \<and>
      (\<not> interrupted w \<longrightarrow> Q (Inr (fs w p \<noteq> None)) (w\<lparr>trace := trace w @ [Exists p]\<rparr>)))"
  by (simp add: os_path_exists_def wp_prim) (auto simp: wp_def)

lemma wp_os_listdir:
  "wp (os_listdir p) Q w =
     ((interrupted w \<longrightarrow> Q (Inl KeyboardInterrupt) (w\<lparr>trace := trace w @ [SIGINT]\<rparr>)) \<and>
      (\<not> interrupted w \<longrightarrow>
        (fs w p = None \<longrightarrow>
           Q (Inl (Exception ''FileNotFoundError'')) (w\<lparr>trace := trace w @ [ListDir p]\<rparr>)) \<and>
        (fs w p = Some File \<longrightarrow>
           Q (Inl (Exception ''NotADirectoryError'')) (w\<lparr>trace := trace w @ [ListDir p]\<rparr>)) \<and>
        (\<forall>es. fs w p = Some (Dir es) \<longrightarrow> Q (Inr es) (w\<lparr>trace := trace w @ [ListDir p]\<rparr>))))"
  by (simp add: os_listdir_def wp_prim) (auto simp: wp_def split: option.splits node.splits)

lemma wp_os_chdir:
  "wp (os_chdir p) Q w =
     ((interrupted w \<longrightarrow> Q (Inl KeyboardInterrupt) (w\<lparr>trace := trace w @ [SIGINT]\<rparr>)) \<and>
      (\<not> interrupted w \<longrightarrow>
        (fs w p = None \<longrightarrow>
           Q (Inl (Exception ''FileNotFoundError'')) (w\<lparr>trace := trace w @ [Chdir p]\<rparr>)) \<and>
        (fs w p = Some File \<longrightarrow>
           Q (Inl (Exception ''NotADirectoryError'')) (w\<lparr>trace := trace w @ [Chdir p]\<rparr>)) \<and>
        (is_Dir (fs w p) \<longrightarrow> Q (Inr ()) (w\<lparr>trace := trace w @ [Chdir p]\<rparr>))))"
  by (simp add: os_chdir_def wp_prim) (auto simp: wp_def split: option.splits node.splits)

lemma wp_process_poll:
  "wp process_poll Q w =
     ((interrupted w \<longrightarrow> Q (Inl KeyboardInterrupt) (w\<lparr>trace := trace w @ [SIGINT]\<rparr>)) \<and>
      (\<not> interrupted w \<longrightarrow>
         Q (Inr (fetch_poll w (polls w)))
           (w\<lparr>trace := trace w @ [Poll], polls := Suc (polls w)\<rparr>)))"
  by (simp add: process_poll_def wp_prim) (auto simp: wp_def)

lemma wp_emit:
  "wp (prim (\<lambda>_. e) (ret ())) Q w =
     ((interrupted w \<longrightarrow> Q (Inl KeyboardInterrupt) (w\<lparr>trace := trace w @ [SIGINT]\<rparr>)) \<and>
      (\<not> interrupted w \<longrightarrow> Q (Inr ()) (w\<lparr>trace := trace w @ [e]\<rparr>)))"
  by (simp add: wp_prim wp_ret)

lemmas wp_simple =
  wp_emit [of "Print s" for s, folded console_print_def]
  wp_emit [of Clear, folded console_clear_def]
  wp_emit [of Kill, folded process_kill_def]
  wp_emit [of "Sleep n" for n, folded time_sleep_def]
  wp_emit [of "ProgressTask d" for d, folded progress_add_task_def]
  wp_emit [of ProgressAdvance, folded progress_update_def]
  wp_emit [of Traceback, folded traceback_print_exc_def]

text \<open>
  With this congruence rule the simplifier executes a program from the front and leaves
  the rest of it alone until it gets there.
\<close>

lemma wp_cong: "w = w' \<Longrightarrow> wp p Q w = wp p Q w'"
  by simp

lemmas wp_rules = wp_bind wp_seq kont_Inl kont_Inr wp_ret wp_raise wp_sys_exit wp_if wp_case_option wp_simple
  wp_MODELS_get wp_MODELS_get_nv wp_subscript wp_environ_get_token wp_environ_set_token
  wp_os_makedirs wp_open_w wp_Confirm_ask wp_Prompt_ask wp_subprocess_Popen wp_run_ignoring
  wp_os_path_exists wp_os_listdir wp_os_chdir wp_process_poll

lemma quiet: "sigint_at w = None \<Longrightarrow> \<not> interrupted w"
  by (simp add: interrupted_def)

section \<open>The polling loop\<close>

lemma poll_turn_running:
  assumes "sigint_at w = None" "fetch_poll w (polls w) = None"
  shows "poll_turn elapsed w =
    (if elapsed + 3 \<ge> timeout
     then (Inr (Stop None), w\<lparr>polls := Suc (polls w),
            trace := trace w @ [Poll, Sleep 3, ProgressAdvance,
                                Print ''Download timed out after 3 hours!'', Kill]\<rparr>)
     else (Inr (Again (elapsed + 3)), w\<lparr>polls := Suc (polls w),
            trace := trace w @ [Poll, Sleep 3, ProgressAdvance]\<rparr>))"
  using assms
  by (simp add: poll_turn_def bind_def seq_def ret_def prim_def process_poll_def
      time_sleep_def progress_update_def console_print_def process_kill_def)

lemma poll_turn_exited:
  assumes "sigint_at w = None" "fetch_poll w (polls w) = Some rc"
  shows "poll_turn elapsed w =
    (Inr (Stop (Some rc)), w\<lparr>polls := Suc (polls w), trace := trace w @ [Poll]\<rparr>)"
  using assms
  by (simp add: poll_turn_def bind_def seq_def ret_def prim_def process_poll_def)

lemma wait_loop_timeout:
  assumes "sigint_at w = None" "\<forall>j<turns_left elapsed. fetch_poll w (polls w + j) = None"
  shows "wait_loop elapsed w =
    (Inr None, w\<lparr>polls := polls w + turns_left elapsed,
       trace := trace w @ concat (replicate (turns_left elapsed) [Poll, Sleep 3, ProgressAdvance])
                @ [Print ''Download timed out after 3 hours!'', Kill]\<rparr>)"
  using assms
proof (induction elapsed w rule: wait_loop.induct)
  case (1 elapsed w)
  have pos: "0 < turns_left elapsed" by (simp add: turns_left_def)
  have run: "fetch_poll w (polls w) = None" using "1.prems"(2) pos by force
  show ?case
  proof (cases "elapsed + 3 \<ge> timeout")
    case True
    then have "turns_left elapsed = 1"
      by (auto simp: turns_left_def timeout_def)
    with True show ?thesis
      by (subst wait_loop.simps) (simp add: poll_turn_running [OF "1.prems"(1) run])
  next
    case False
    let ?w' = "w\<lparr>polls := Suc (polls w), trace := trace w @ [Poll, Sleep 3, ProgressAdvance]\<rparr>"
    have pt: "poll_turn elapsed w = (Inr (Again (elapsed + 3)), ?w')"
      using False by (simp add: poll_turn_running [OF "1.prems"(1) run])
    have tl: "turns_left elapsed = Suc (turns_left (elapsed + 3))"
      using False by (auto simp: turns_left_def timeout_def max_def)
    have IH: "wait_loop (elapsed + 3) ?w' =
      (Inr None, ?w'\<lparr>polls := polls ?w' + turns_left (elapsed + 3),
       trace := trace ?w' @ concat (replicate (turns_left (elapsed + 3)) [Poll, Sleep 3, ProgressAdvance])
                @ [Print ''Download timed out after 3 hours!'', Kill]\<rparr>)"
    proof (rule "1.IH" [OF pt [symmetric] refl refl])
      show "sigint_at ?w' = None" using "1.prems"(1) by simp
      show "\<forall>j<turns_left (elapsed + 3). fetch_poll ?w' (polls ?w' + j) = None"
        using "1.prems"(2) tl by (auto dest: spec [where x = "Suc j" for j])
    qed
    show ?thesis
      by (subst wait_loop.simps) (simp add: pt IH tl)
  qed
qed

lemma wait_loop_exits:
  assumes "sigint_at w = None" "\<forall>j<k. fetch_poll w (polls w + j) = None"
    "fetch_poll w (polls w + k) = Some rc" "k = 0 \<or> elapsed + 3 * k < timeout"
  shows "wait_loop elapsed w =
    (Inr (Some rc), w\<lparr>polls := Suc (polls w + k),
       trace := trace w @ concat (replicate k [Poll, Sleep 3, ProgressAdvance]) @ [Poll]\<rparr>)"
  using assms
proof (induction k arbitrary: elapsed w)
  case 0
  then show ?case
    by (subst wait_loop.simps) (simp add: poll_turn_exited)
next
  case (Suc k)
  have run: "fetch_poll w (polls w) = None" using Suc.prems(2) by force
  let ?w' = "w\<lparr>polls := Suc (polls w), trace := trace w @ [Poll, Sleep 3, ProgressAdvance]\<rparr>"
  have pt: "poll_turn elapsed w = (Inr (Again (elapsed + 3)), ?w')"
    using Suc.prems(4) by (simp add: poll_turn_running [OF Suc.prems(1) run])
  have IH: "wait_loop (elapsed + 3) ?w' =
    (Inr (Some rc), ?w'\<lparr>polls := Suc (polls ?w' + k),
       trace := trace ?w' @ concat (replicate k [Poll, Sleep 3, ProgressAdvance]) @ [Poll]\<rparr>)"
  proof (rule Suc.IH)
    show "sigint_at ?w' = None" using Suc.prems(1) by simp
    show "\<forall>j<k. fetch_poll ?w' (polls ?w' + j) = None"
      using Suc.prems(2) by (auto dest: spec [where x = "Suc j" for j])
    show "fetch_poll ?w' (polls ?w' + k) = Some rc" using Suc.prems(3) by simp
    show "k = 0 \<or> elapsed + 3 + 3 * k < timeout" using Suc.prems(4) by simp
  qed
  show ?case
    by (subst wait_loop.simps) (simp add: pt IH)
qed

lemma turns_left_0: "turns_left 0 = 3600"
  by (simp add: turns_left_def timeout_def)

text \<open>The events of a timed-out supervision, after those of the turns.\<close>

lemma wp_supervise_timeout:
  assumes "sigint_at w = None" "\<forall>j<turns_left 0. fetch_poll w (polls w + j) = None"
  shows "wp (supervise log_file) Q w =
    Q (Inr False) (w\<lparr>polls := polls w + turns_left 0,
       trace := trace w @ ProgressTask ''Downloading...''
                # concat (replicate (turns_left 0) [Poll, Sleep 3, ProgressAdvance])
                @ [Print ''Download timed out after 3 hours!'', Kill]\<rparr>)"
  using assms
  by (simp add: wp_def supervise_def bind_def seq_def ret_def progress_add_task_def prim_def
      wait_loop_timeout)

lemma wp_supervise_exits:
  assumes "sigint_at w = None" "\<forall>j<k. fetch_poll w (polls w + j) = None"
    "fetch_poll w (polls w + k) = Some rc" "3 * k < timeout"
  shows "wp (supervise log_file) Q w =
    ((rc \<noteq> 0 \<longrightarrow>
       Q (Inr False) (w\<lparr>polls := Suc (polls w + k),
         trace := trace w @ ProgressTask ''Downloading...''
                  # concat (replicate k [Poll, Sleep 3, ProgressAdvance])
                  @ [Poll, Print (''Download failed with exit code '' @ str_int rc),
                     Print (''Check log: '' @ log_file)]\<rparr>)) \<and>
     (rc = 0 \<longrightarrow>
       Q (Inr True) (w\<lparr>polls := Suc (polls w + k),
         trace := trace w @ ProgressTask ''Downloading...''
                  # concat (replicate k [Poll, Sleep 3, ProgressAdvance])
                  @ [Poll, Print ''Download complete!'']\<rparr>)))"
proof -
  let ?w1 = "w\<lparr>trace := trace w @ [ProgressTask ''Downloading...'']\<rparr>"
  have "wait_loop 0 ?w1 =
    (Inr (Some rc), ?w1\<lparr>polls := Suc (polls ?w1 + k),
       trace := trace ?w1 @ concat (replicate k [Poll, Sleep 3, ProgressAdvance]) @ [Poll]\<rparr>)"
    using assms by (intro wait_loop_exits) auto
  then show ?thesis
    using assms(1)
    by (simp add: wp_def supervise_def bind_def seq_def ret_def progress_add_task_def prim_def
        console_print_def)
qed

lemma filter_concat_replicate:
  "filter P (concat (replicate n xs)) = concat (replicate n (filter P xs))"
  by (induction n) auto

lemma length_concat_replicate:
  "length (concat (replicate n xs)) = n * length xs"
  by (induction n) auto


lemma list_ex_concat_replicate:
  "list_ex P (concat (replicate n xs)) = (n > 0 \<and> list_ex P xs)"
  by (induction n) auto

lemma ancestors_models: "ancestors ''/workspace/models'' = [''/workspace'']"
  by (simp add: ancestors_def upt_rec)

lemmas eval_world = MODELS_def os_path_join_def parent_node_def dirname_def fetch_cmd_def
  ancestors_models

section \<open>download_model: time limit and exit code\<close>

text \<open>
  C1. Take a run of \<open>download_model\<close> that starts a fetch process, with no Ctrl-C and a
  fetch process that never exits. Then the function returns \<open>False\<close> (it does not hang:
  \<open>download_model\<close> is a total function), the process was started once and never again (no
  retry), the loop has slept 3 seconds 3600 times, which is the ceiling of 10800 seconds,
  and the last thing the function does is to kill the process.
\<close>

theorem download_timeout:
  assumes "sigint_at w = None"
    and "\<forall>j. fetch_poll w j = None"
    and "list_ex is_Popen (new_events (download_model model_key token) w)"
  shows "fst (download_model model_key token w) = Inr False
       \<and> length (filter is_Popen (new_events (download_model model_key token) w)) = 1
       \<and> length (filter (\<lambda>e. e = Sleep 3) (new_events (download_model model_key token) w)) * 3
           = timeout
       \<and> timeout = 10800
       \<and> length (filter (\<lambda>e. e = Kill) (new_events (download_model model_key token) w)) = 1
       \<and> last (new_events (download_model model_key token) w) = Kill"
proof -
  have "wp (download_model model_key token)
          (\<lambda>r w'. list_ex is_Popen (drop (length (trace w)) (trace w')) \<longrightarrow>
             r = Inr False
             \<and> length (filter is_Popen (drop (length (trace w)) (trace w'))) = 1
             \<and> length (filter (\<lambda>e. e = Sleep 3) (drop (length (trace w)) (trace w'))) = turns_left 0
             \<and> length (filter (\<lambda>e. e = Kill) (drop (length (trace w)) (trace w'))) = 1
             \<and> last (drop (length (trace w)) (trace w')) = Kill) w"
    using assms(1,2)
    unfolding download_model_def already_downloaded_def
    by (simp add: wp_rules wp_supervise_timeout quiet
        filter_concat_replicate length_concat_replicate list_ex_concat_replicate
        split del: if_split cong: wp_cong kont_cong)
  with assms(3) show ?thesis
    by (simp add: wp_def new_events_def turns_left_0) (simp add: timeout_def)
qed

theorem download_timeout_witness:
  "sigint_at w_hang = None \<and> (\<forall>j. fetch_poll w_hang j = None)
   \<and> list_ex is_Popen (new_events (download_model ''sdxl'' None) w_hang)
   \<and> fst (download_model ''sdxl'' None w_hang) = Inr False
   \<and> length (filter (\<lambda>e. e = Kill) (new_events (download_model ''sdxl'' None) w_hang)) = 1"
proof -
  have h1: "sigint_at w_hang = None" and h2: "\<forall>j. fetch_poll w_hang j = None"
    by (simp_all add: w_hang_def)
  have "wp (download_model ''sdxl'' None)
          (\<lambda>r w'. list_ex is_Popen (drop (length (trace w_hang)) (trace w'))) w_hang"
    unfolding download_model_def already_downloaded_def
    by (simp add: wp_rules wp_supervise_timeout quiet
        list_ex_concat_replicate w_hang_def eval_world split del: if_split cong: wp_cong kont_cong)
  then have h3: "list_ex is_Popen (new_events (download_model ''sdxl'' None) w_hang)"
    by (simp add: wp_def new_events_def)
  from download_timeout [OF h1 h2 h3] h1 h2 h3 show ?thesis
    by blast
qed



section \<open>What a run adds to the trace\<close>

lemma emits_refl: "emits P w r w"
  by (simp add: emits_def)

lemma emits_step: "P e \<Longrightarrow> emits P w r' w' \<Longrightarrow> trace w'' = trace w' @ [e] \<Longrightarrow> emits P w r w''"
  by (auto simp: emits_def)

lemma emits_trans: "emits P w r' w' \<Longrightarrow> emits P w' r w'' \<Longrightarrow> emits P w r w''"
  by (auto simp: emits_def)

lemma emitting_bind:
  assumes "emitting P m" "\<And>a. emitting P (f a)"
  shows "emitting P (bind m f)"
  unfolding emitting_def
proof
  fix w
  obtain r w' where mw: "m w = (r, w')" by (cases "m w")
  from assms(1) have "emits P w (fst (m w)) (snd (m w))" by (simp add: emitting_def wp_def)
  with mw have e1: "emits P w r w'" by simp
  show "wp (bind m f) (emits P w) w"
  proof (cases r)
    case (Inl s)
    with mw e1 show ?thesis by (simp add: wp_def bind_def emits_def)
  next
    case (Inr a)
    from assms(2) [of a] have "emits P w' (fst (f a w')) (snd (f a w'))"
      by (simp add: emitting_def wp_def)
    with e1 have "emits P w (fst (f a w')) (snd (f a w'))" by (rule emits_trans)
    with Inr mw show ?thesis by (simp add: wp_def bind_def)
  qed
qed

lemma emitting_seq: "emitting P m \<Longrightarrow> emitting P n \<Longrightarrow> emitting P (seq m n)"
  by (simp add: seq_def emitting_bind)

lemma emitting_ret: "emitting P (ret a)"
  by (simp add: emitting_def wp_ret emits_def)

lemma emitting_sys_exit: "emitting P (sys_exit n)"
  by (simp add: emitting_def wp_sys_exit emits_def)

lemma emitting_if: "emitting P p \<Longrightarrow> emitting P q \<Longrightarrow> emitting P (if c then p else q)"
  by simp

lemma emitting_case_option:
  "emitting P p \<Longrightarrow> (\<And>y. emitting P (q y)) \<Longrightarrow> emitting P (case x of None \<Rightarrow> p | Some y \<Rightarrow> q y)"
  by (simp split: option.splits)

lemma emitting_simple:
  assumes "P SIGINT"
  shows "P (Print s) \<Longrightarrow> emitting P (console_print s)"
    and "P Clear \<Longrightarrow> emitting P console_clear"
    and "P Kill \<Longrightarrow> emitting P process_kill"
    and "P (Sleep n) \<Longrightarrow> emitting P (time_sleep n)"
    and "P (ProgressTask d) \<Longrightarrow> emitting P (progress_add_task d)"
    and "P ProgressAdvance \<Longrightarrow> emitting P progress_update"
    and "P Traceback \<Longrightarrow> emitting P traceback_print_exc"
    and "P Poll \<Longrightarrow> emitting P process_poll"
    and "P (Exists p) \<Longrightarrow> emitting P (os_path_exists p)"
    and "P (ListDir p) \<Longrightarrow> emitting P (os_listdir p)"
    and "P (Chdir p) \<Longrightarrow> emitting P (os_chdir p)"
    and "P (MakeDirs p) \<Longrightarrow> emitting P (os_makedirs p)"
    and "P (OpenW p) \<Longrightarrow> emitting P (open_w p)"
    and "P (Popen cmd) \<Longrightarrow> P (ExecFailed cmd) \<Longrightarrow> emitting P (subprocess_Popen cmd)"
    and "P (Run cmd env) \<Longrightarrow> P (ExecFailed cmd) \<Longrightarrow> emitting P (run_ignoring cmd env)"
    and "\<forall>a. P (Confirm q a) \<Longrightarrow> emitting P (Confirm_ask q)"
    and "\<forall>a. P (Ask q a) \<Longrightarrow> emitting P (Prompt_ask q)"
  using assms by (simp_all add: emitting_def wp_rules emits_def split del: if_split)

lemma emitting_pure:
  "emitting P (MODELS_get k)" "emitting P MODELS_get_nv" "emitting P (subscript d k)"
  "emitting P environ_get_token" "emitting P (environ_set_token t)"
  by (simp_all add: emitting_def wp_rules emits_def)

lemma emitting_poll_turn: "emitting supervision_event (poll_turn e)"
  unfolding poll_turn_def
  by (intro emitting_bind emitting_seq emitting_ret emitting_if emitting_case_option
      emitting_simple) simp_all

lemma emitting_wait_loop: "emitting supervision_event (wait_loop e)"
  unfolding emitting_def
proof
  fix w
  show "wp (wait_loop e) (emits supervision_event w) w"
  proof (induction e w rule: wait_loop.induct)
    case (1 elapsed w)
    obtain r w' where pt: "poll_turn elapsed w = (r, w')" by (cases "poll_turn elapsed w")
    from emitting_poll_turn have "emits supervision_event w (fst (poll_turn elapsed w)) (snd (poll_turn elapsed w))"
      by (simp add: emitting_def wp_def)
    with pt have e1: "emits supervision_event w r w'" by simp
    show ?case
    proof (cases r)
      case (Inl s)
      with pt e1 show ?thesis
        by (subst wp_def, subst (1 2) wait_loop.simps) (simp add: emits_def)
    next
      case (Inr y)
      show ?thesis
      proof (cases y)
        case (Stop x)
        with Inr pt e1 show ?thesis
          by (subst wp_def, subst (1 2) wait_loop.simps) (simp add: emits_def)
      next
        case (Again e')
        from "1.IH" [OF pt [symmetric] Inr Again]
        have "emits supervision_event w' (fst (wait_loop e' w')) (snd (wait_loop e' w'))"
          by (simp add: wp_def)
        with e1 have "emits supervision_event w (fst (wait_loop e' w')) (snd (wait_loop e' w'))"
          by (rule emits_trans)
        with Inr Again pt show ?thesis
          by (subst wp_def, subst (1 2) wait_loop.simps) simp
      qed
    qed
  qed
qed

lemma emitting_supervise: "emitting supervision_event (supervise log_file)"
  unfolding supervise_def
  by (intro emitting_bind emitting_seq emitting_ret emitting_if emitting_case_option
      emitting_simple emitting_wait_loop) simp_all

lemma wp_supervise_any:
  assumes "\<And>r t w'. list_all supervision_event t \<Longrightarrow> trace w' = trace w @ t \<Longrightarrow> Q r w'"
  shows "wp (supervise log_file) Q w"
proof (rule wp_conseq)
  show "wp (supervise log_file) (emits supervision_event w) w"
    using emitting_supervise by (simp add: emitting_def)
qed (auto simp: emits_def intro: assms)

section \<open>download_model: an artifact that is already there\<close>

lemma mkdirs_all_dirs:
  "\<forall>q\<in>set qs. is_Dir (f q) \<Longrightarrow> mkdirs qs f = (True, f)"
proof (induction qs)
  case Nil
  then show ?case by simp
next
  case (Cons q qs)
  then obtain es where "f q = Some (Dir es)"
    by (cases "f q" rule: is_Dir.cases) auto
  with Cons show ?case by simp
qed

text \<open>
  C3. Take a model whose descriptor declares \<open>model_file\<close>, and a world without Ctrl-C, on
  a volume whose name puts no tag into the messages, in which the destination directory
  (with its ancestors) is a directory and the artifact exists in it. Then \<open>download_model\<close> asks ``Skip download?'', and when the answer is
  yes it returns \<open>True\<close> and no fetch process has been started.
\<close>

theorem skip_existing:
  assumes "sigint_at w = None"
    and "map_of (MODELS (NETWORK_VOLUME w)) model_key = Some m"
    and "truthy (model_file m)"
    and "\<forall>q\<in>set (ancestors (local_dir m) @ [local_dir m]). is_Dir (fs w q)"
    and "fs w (os_path_join (local_dir m) (the (model_file m))) \<noteq> None"
    and "markup_free (NETWORK_VOLUME w)"
  shows "Confirm ''Skip download?'' (case confirms w of [] \<Rightarrow> None | a # as \<Rightarrow> Some a)
           \<in> set (new_events (download_model model_key token) w)
       \<and> (\<forall>as. confirms w = True # as \<longrightarrow>
             fst (download_model model_key token w) = Inr True
             \<and> \<not> list_ex is_Popen (new_events (download_model model_key token) w))"
proof -
  have mk: "mkdirs (ancestors (local_dir m) @ [local_dir m]) (fs w) = (True, fs w)"
    using assms(4) by (rule mkdirs_all_dirs)
  have "wp (download_model model_key token)
          (\<lambda>r w'. list_ex (\<lambda>e. e = Confirm ''Skip download?''
                       (case confirms w of [] \<Rightarrow> None | a # as \<Rightarrow> Some a))
                     (drop (length (trace w)) (trace w'))
             \<and> (\<forall>as. confirms w = True # as \<longrightarrow>
                  r = Inr True \<and> \<not> list_ex is_Popen (drop (length (trace w)) (trace w')))) w"
    using assms(1,2,3,5)
    unfolding download_model_def already_downloaded_def
    apply (simp add: wp_rules quiet mk
        split del: if_split cong: wp_cong kont_cong)
    apply (intro conjI impI allI wp_supervise_any)
    apply simp_all
    done
  then show ?thesis
    by (auto simp add: wp_def new_events_def list_ex_iff)
qed


lemma sdxl_fields:
  "map_of (MODELS ''/workspace'') ''sdxl'' = Some sdxl"
  "local_dir sdxl = ''/workspace/models''"
  "model_file sdxl = Some ''sdXL_v10VAEFix.safetensors''"
  by (simp_all add: sdxl_def MODELS_def)

theorem skip_existing_witness:
  "sigint_at w_have = None
   \<and> markup_free (NETWORK_VOLUME w_have)
   \<and> map_of (MODELS (NETWORK_VOLUME w_have)) ''sdxl'' = Some sdxl
   \<and> truthy (model_file sdxl)
   \<and> ancestors (local_dir sdxl) @ [local_dir sdxl] = [''/workspace'', ''/workspace/models'']
   \<and> is_Dir (fs w_have ''/workspace'')
   \<and> is_Dir (fs w_have ''/workspace/models'')
   \<and> fs w_have (os_path_join (local_dir sdxl) (the (model_file sdxl))) \<noteq> None
   \<and> Confirm ''Skip download?'' (Some True) \<in> set (new_events (download_model ''sdxl'' None) w_have)
   \<and> fst (download_model ''sdxl'' None w_have) = Inr True
   \<and> \<not> list_ex is_Popen (new_events (download_model ''sdxl'' None) w_have)"
proof -
  have h1: "sigint_at w_have = None"
    and h2: "map_of (MODELS (NETWORK_VOLUME w_have)) ''sdxl'' = Some sdxl"
    and h3: "truthy (model_file sdxl)"
    and h4: "\<forall>q\<in>set (ancestors (local_dir sdxl) @ [local_dir sdxl]). is_Dir (fs w_have q)"
    and h5: "fs w_have (os_path_join (local_dir sdxl) (the (model_file sdxl))) \<noteq> None"
    and c: "confirms w_have = [True]"
    and h9: "markup_free (NETWORK_VOLUME w_have)"
    by (simp_all add: w_have_def w_hang_def sdxl_fields ancestors_models os_path_join_def
        markup_free_def)
  have h6: "ancestors (local_dir sdxl) @ [local_dir sdxl] = [''/workspace'', ''/workspace/models'']"
    and h7: "is_Dir (fs w_have ''/workspace'')"
    and h8: "is_Dir (fs w_have ''/workspace/models'')"
    by (simp_all add: w_have_def w_hang_def sdxl_fields ancestors_models)
  from skip_existing [OF h1 h2 h3 h4 h5 h9, of None] c
  have "Confirm ''Skip download?'' (Some True) \<in> set (new_events (download_model ''sdxl'' None) w_have)
     \<and> fst (download_model ''sdxl'' None w_have) = Inr True
     \<and> \<not> list_ex is_Popen (new_events (download_model ''sdxl'' None) w_have)"
    by simp
  with h1 h2 h3 h5 h6 h7 h8 h9 show ?thesis
    by blast
qed

section \<open>download_model: the existence check and the fetch process\<close>

lemma supervision_no_Popen: "list_all supervision_event t \<Longrightarrow> checked_before p t"
  by (induction t) (auto elim: supervision_event.elims)

lemma supervision_no_Exists: "list_all supervision_event t \<Longrightarrow> \<not> list_ex is_Exists t"
  by (induction t) (auto elim: supervision_event.elims)

lemma registry_model_file:
  "map_of (MODELS nv) k = Some m \<Longrightarrow> truthy (model_file m) \<longleftrightarrow> k \<noteq> ''z_image_turbo''"
  by (auto simp: MODELS_def split: if_splits)

text \<open>
  C4, as amended. For a model of the registry other than \<^verbatim>\<open>z_image_turbo\<close> (these are the
  models that declare \<open>model_file\<close>), in every run of \<open>download_model\<close>, interrupted or
  not, no fetch process is started before the existence of the artifact has been checked.
  For \<^verbatim>\<open>z_image_turbo\<close>, which declares no artifact, \<open>download_model\<close> checks the
  existence of nothing.
\<close>

theorem existence_check_first:
  assumes "map_of (MODELS (NETWORK_VOLUME w)) model_key = Some m"
  shows "(model_key \<noteq> ''z_image_turbo'' \<longrightarrow>
           checked_before (os_path_join (local_dir m) (the (model_file m)))
             (new_events (download_model model_key token) w))
       \<and> (model_key = ''z_image_turbo'' \<longrightarrow>
           \<not> list_ex is_Exists (new_events (download_model model_key token) w))"
proof -
  have "wp (download_model model_key token)
          (\<lambda>r w'. (truthy (model_file m) \<longrightarrow>
                checked_before (os_path_join (local_dir m) (the (model_file m)))
                  (drop (length (trace w)) (trace w')))
             \<and> (\<not> truthy (model_file m) \<longrightarrow>
                \<not> list_ex is_Exists (drop (length (trace w)) (trace w')))) w"
    using assms
    unfolding download_model_def already_downloaded_def
    apply (simp add: wp_rules split del: if_split cong: wp_cong kont_cong)
    apply (intro conjI impI allI wp_supervise_any)
    apply (simp_all add: supervision_no_Popen supervision_no_Exists)
    done
  then show ?thesis
    using registry_model_file [OF assms]
    by (auto simp add: wp_def new_events_def)
qed

theorem existence_check_first_witness:
  "map_of (MODELS (NETWORK_VOLUME w_fail)) ''sdxl'' = Some sdxl
   \<and> checked_before ''/workspace/models/sdXL_v10VAEFix.safetensors''
        (new_events (download_model ''sdxl'' None) w_fail)"
proof -
  have h: "map_of (MODELS (NETWORK_VOLUME w_fail)) ''sdxl'' = Some sdxl"
    by (simp add: w_fail_def w_hang_def sdxl_fields)
  from existence_check_first [OF h, of None] h show ?thesis
    by (simp add: sdxl_fields os_path_join_def)
qed

text \<open>
  The claim C4 as it is stated fails for \<^verbatim>\<open>z_image_turbo\<close>: on the sample volume a fetch
  process is started and no existence check comes before it.
\<close>

theorem existence_check_first_counterexample:
  "\<not> spawn_checked (new_events (download_model ''z_image_turbo'' None) w_fail)"
proof -
  note ex = wp_supervise_exits [where k = 2 and rc = 1]
  have "wp (download_model ''z_image_turbo'' None)
          (\<lambda>r w'. \<not> spawn_checked (drop (length (trace w_fail)) (trace w'))) w_fail"
    unfolding download_model_def already_downloaded_def
    by (simp add: wp_rules ex quiet timeout_def
        w_fail_def w_hang_def MODELS_def os_path_join_def parent_node_def dirname_def
        fetch_cmd_def ancestors_def upt_rec split del: if_split cong: wp_cong kont_cong)
  then show ?thesis
    by (simp add: wp_def new_events_def)
qed

section \<open>launch_training\<close>

lemma registry_script:
  "map_of (MODELS nv) k = Some m \<Longrightarrow> truthy (training_script m) \<Longrightarrow>
     k \<noteq> ''qwen'' \<and> k \<noteq> ''z_image_turbo''"
  by (auto simp: MODELS_def split: if_splits)

lemma flux_fields:
  "map_of (MODELS ''/workspace'') ''flux'' = Some flux"
  "training_script flux = Some ''start_flux_training.sh''"
  "requires_token flux"
  by (simp_all add: flux_def MODELS_def)

text \<open>
  C5. On an absolute working volume that puts no tag into the messages, in a run of
  \<open>launch_training\<close> without Ctrl-C that reaches the training command (the checkout directory
  is there, \<^verbatim>\<open>pip\<close> can be started, the script is there when the descriptor names one, and
  the program of the training command can be started): the training command of the
  descriptor is run with the two NCCL variables set, and whatever return code \<open>f\<close> gives
  it, \<open>launch_training\<close> returns normally, and the last things it does are that run, an
  empty line and the banner ``Training completed!''.
  (\<open>subprocess.run\<close> is synchronous: the banner comes after the \<open>Run\<close> entry.)
\<close>

theorem training_banner:
  assumes "sigint_at w = None"
    and "absolute_path (NETWORK_VOLUME w)"
    and "markup_free (NETWORK_VOLUME w)"
    and "map_of (MODELS (NETWORK_VOLUME w)) model_key = Some m"
    and "is_Dir (fs w (WORKING_DIR (NETWORK_VOLUME w) @ ''/diffusion_pipe''))"
    and "can_exec w ''pip''"
    and "truthy (training_script m) \<longrightarrow>
           fs w (WORKING_DIR (NETWORK_VOLUME w) @ ''/training_scripts/'' @ the (training_script m)) \<noteq> None"
    and "can_exec w (hd (training_cmd (NETWORK_VOLUME w) m))"
  shows "fst (launch_training model_key (w\<lparr>run_exit := f\<rparr>)) = Inr ()
       \<and> suffix [Run (training_cmd (NETWORK_VOLUME w) m) training_env, Print [],
                 Print ''Training completed!'']
            (new_events (launch_training model_key) (w\<lparr>run_exit := f\<rparr>))"
proof -
  obtain es where dir: "fs w (WORKING_DIR (NETWORK_VOLUME w) @ ''/diffusion_pipe'') = Some (Dir es)"
    using assms(5) by (cases "fs w (WORKING_DIR (NETWORK_VOLUME w) @ ''/diffusion_pipe'')" rule: is_Dir.cases) auto
  have "wp (launch_training model_key)
          (\<lambda>r w'. r = Inr ()
             \<and> suffix [Run (training_cmd (NETWORK_VOLUME w) m) training_env, Print [],
                       Print ''Training completed!'']
                  (drop (length (trace w)) (trace w'))) (w\<lparr>run_exit := f\<rparr>)"
  proof (cases "truthy (training_script m)")
    case True
    with assms(1,4,6,7,8) dir show ?thesis
      unfolding launch_training_def
      by (simp add: wp_rules quiet training_cmd_def suffix_to_prefix
          del: not_None_eq split del: if_split cong: wp_cong kont_cong)
  next
    case False
    with assms(1,4,6,7,8) dir show ?thesis
      unfolding launch_training_def
      by (simp add: wp_rules quiet training_cmd_def suffix_to_prefix
          del: not_None_eq split del: if_split cong: wp_cong kont_cong)
  qed
  then show ?thesis
    by (simp add: wp_def new_events_def)
qed

theorem training_banner_witness:
  "sigint_at w_train = None
   \<and> absolute_path (NETWORK_VOLUME w_train)
   \<and> markup_free (NETWORK_VOLUME w_train)
   \<and> map_of (MODELS (NETWORK_VOLUME w_train)) ''flux'' = Some flux
   \<and> is_Dir (fs w_train (WORKING_DIR (NETWORK_VOLUME w_train) @ ''/diffusion_pipe''))
   \<and> can_exec w_train ''pip''
   \<and> truthy (training_script flux)
   \<and> fs w_train (WORKING_DIR (NETWORK_VOLUME w_train) @ ''/training_scripts/''
         @ the (training_script flux)) \<noteq> None
   \<and> can_exec w_train (hd (training_cmd (NETWORK_VOLUME w_train) flux))
   \<and> fst (launch_training ''flux'' (w_train\<lparr>run_exit := (\<lambda>_. 1)\<rparr>)) = Inr ()
   \<and> suffix [Run [''bash'',
          ''/workspace/diffusion-pipe-working-folder/training_scripts/start_flux_training.sh'']
            training_env, Print [], Print ''Training completed!'']
        (new_events (launch_training ''flux'') (w_train\<lparr>run_exit := (\<lambda>_. 1)\<rparr>))"
proof -
  have h1: "sigint_at w_train = None"
    and h2: "absolute_path (NETWORK_VOLUME w_train)"
    and h3: "markup_free (NETWORK_VOLUME w_train)"
    and h4: "map_of (MODELS (NETWORK_VOLUME w_train)) ''flux'' = Some flux"
    and h5: "is_Dir (fs w_train (WORKING_DIR (NETWORK_VOLUME w_train) @ ''/diffusion_pipe''))"
    and h6: "can_exec w_train ''pip''"
    and h7: "truthy (training_script flux)"
    and h8: "fs w_train (WORKING_DIR (NETWORK_VOLUME w_train) @ ''/training_scripts/''
         @ the (training_script flux)) \<noteq> None"
    and h9: "can_exec w_train (hd (training_cmd (NETWORK_VOLUME w_train) flux))"
    by (simp_all add: w_train_def w_noscript_def w_hang_def flux_fields WORKING_DIR_def
        absolute_path_def markup_free_def)
  have c: "training_cmd (NETWORK_VOLUME w_train) flux = [''bash'',
          ''/workspace/diffusion-pipe-working-folder/training_scripts/start_flux_training.sh'']"
    by (simp add: training_cmd_def flux_fields WORKING_DIR_def w_train_def w_noscript_def w_hang_def)
  from h8 have h8': "truthy (training_script flux) \<longrightarrow>
      fs w_train (WORKING_DIR (NETWORK_VOLUME w_train) @ ''/training_scripts/''
         @ the (training_script flux)) \<noteq> None"
    by blast
  have "fst (launch_training ''flux'' (w_train\<lparr>run_exit := (\<lambda>_. 1)\<rparr>)) = Inr ()
   \<and> suffix [Run [''bash'',
          ''/workspace/diffusion-pipe-working-folder/training_scripts/start_flux_training.sh'']
            training_env, Print [], Print ''Training completed!'']
        (new_events (launch_training ''flux'') (w_train\<lparr>run_exit := (\<lambda>_. 1)\<rparr>))"
    using training_banner [OF h1 h2 h3 h4 h5 h6 h8' h9, of "\<lambda>_. 1"] unfolding c .
  with h1 h2 h3 h4 h5 h6 h7 h8 h9 show ?thesis
    by blast
qed

text \<open>
  C6, as amended. On an absolute working volume that puts no tag into the messages, for a
  model with a training script, when the script file is absent and there is no Ctrl-C,
  \<open>launch_training\<close> runs no command but the \<^verbatim>\<open>pip\<close> upgrades (neither the script nor the
  inline \<^verbatim>\<open>deepspeed\<close> command) and ends in a failure whose exit status is 1. When the
  checkout directory is there and \<^verbatim>\<open>pip\<close> can be started, it ends by \<^verbatim>\<open>sys.exit(1)\<close> and
  what it has done is exactly this, in this order: the opening messages, the check of the
  checkout directory, the change into it, the two \<^verbatim>\<open>pip\<close> upgrades, and only then the
  check of the script file and the message that it was not found.
\<close>

theorem missing_script:
  assumes "sigint_at w = None"
    and "absolute_path (NETWORK_VOLUME w)"
    and "markup_free (NETWORK_VOLUME w)"
    and "map_of (MODELS (NETWORK_VOLUME w)) model_key = Some m"
    and "truthy (training_script m)"
    and "fs w (WORKING_DIR (NETWORK_VOLUME w) @ ''/training_scripts/'' @ the (training_script m)) = None"
  shows "prefix (filter is_Run (new_events (launch_training model_key) w)) pip_runs
       \<and> (\<exists>s. fst (launch_training model_key w) = Inl s \<and> exit_code (Inl s) = 1)
       \<and> (is_Dir (fs w (WORKING_DIR (NETWORK_VOLUME w) @ ''/diffusion_pipe'')) \<and> can_exec w ''pip'' \<longrightarrow>
            fst (launch_training model_key w) = Inl (SystemExit 1)
            \<and> new_events (launch_training model_key) w
                = [Print [], Print (''Starting Training: '' @ name m), Print [],
                   Exists (WORKING_DIR (NETWORK_VOLUME w) @ ''/diffusion_pipe''),
                   Chdir (WORKING_DIR (NETWORK_VOLUME w) @ ''/diffusion_pipe''),
                   Print ''Upgrading dependencies...'']
                  @ pip_runs
                  @ [Print ''Dependencies updated'', Print [],
                     Print ''Training is starting...'', Print [],
                     Exists (WORKING_DIR (NETWORK_VOLUME w) @ ''/training_scripts/''
                               @ the (training_script m)),
                     Print (''Training script not found: '' @ WORKING_DIR (NETWORK_VOLUME w)
                               @ ''/training_scripts/'' @ the (training_script m))])"
proof -
  from registry_script [OF assms(4,5)]
  have k: "model_key \<noteq> ''qwen''" "model_key \<noteq> ''z_image_turbo''"
    by simp_all
  have "wp (launch_training model_key)
          (\<lambda>r w'. prefix (filter is_Run (drop (length (trace w)) (trace w'))) pip_runs
             \<and> (\<exists>s. r = Inl s \<and> exit_code (Inl s) = 1)
             \<and> (is_Dir (fs w (WORKING_DIR (NETWORK_VOLUME w) @ ''/diffusion_pipe'')) \<and> can_exec w ''pip'' \<longrightarrow>
                  r = Inl (SystemExit 1)
                  \<and> drop (length (trace w)) (trace w')
                = [Print [], Print (''Starting Training: '' @ name m), Print [],
                   Exists (WORKING_DIR (NETWORK_VOLUME w) @ ''/diffusion_pipe''),
                   Chdir (WORKING_DIR (NETWORK_VOLUME w) @ ''/diffusion_pipe''),
                   Print ''Upgrading dependencies...'']
                  @ pip_runs
                  @ [Print ''Dependencies updated'', Print [],
                     Print ''Training is starting...'', Print [],
                     Exists (WORKING_DIR (NETWORK_VOLUME w) @ ''/training_scripts/''
                               @ the (training_script m)),
                     Print (''Training script not found: '' @ WORKING_DIR (NETWORK_VOLUME w)
                               @ ''/training_scripts/'' @ the (training_script m))])) w"
    using assms(1,4,5,6) k unfolding launch_training_def
    by (simp add: wp_rules quiet pip_runs_def split del: if_split cong: wp_cong kont_cong)
  then show ?thesis
    by (simp add: wp_def new_events_def)
qed

theorem missing_script_witness:
  "sigint_at w_noscript = None
   \<and> absolute_path (NETWORK_VOLUME w_noscript)
   \<and> markup_free (NETWORK_VOLUME w_noscript)
   \<and> map_of (MODELS (NETWORK_VOLUME w_noscript)) ''flux'' = Some flux
   \<and> truthy (training_script flux)
   \<and> fs w_noscript (WORKING_DIR (NETWORK_VOLUME w_noscript) @ ''/training_scripts/''
         @ the (training_script flux)) = None
   \<and> is_Dir (fs w_noscript (WORKING_DIR (NETWORK_VOLUME w_noscript) @ ''/diffusion_pipe''))
   \<and> can_exec w_noscript ''pip''
   \<and> fst (launch_training ''flux'' w_noscript) = Inl (SystemExit 1)
   \<and> filter is_Run (new_events (launch_training ''flux'') w_noscript) = pip_runs"
proof -
  have h1: "sigint_at w_noscript = None"
    and h2: "absolute_path (NETWORK_VOLUME w_noscript)"
    and h3: "markup_free (NETWORK_VOLUME w_noscript)"
    and h4: "map_of (MODELS (NETWORK_VOLUME w_noscript)) ''flux'' = Some flux"
    and h5: "truthy (training_script flux)"
    and h6: "fs w_noscript (WORKING_DIR (NETWORK_VOLUME w_noscript) @ ''/training_scripts/''
         @ the (training_script flux)) = None"
    and h7: "is_Dir (fs w_noscript (WORKING_DIR (NETWORK_VOLUME w_noscript) @ ''/diffusion_pipe''))"
    and h8: "can_exec w_noscript ''pip''"
    by (simp_all add: w_noscript_def w_hang_def flux_fields WORKING_DIR_def
        absolute_path_def markup_free_def)
  from missing_script [OF h1 h2 h3 h4 h5 h6] h7 h8
  have "fst (launch_training ''flux'' w_noscript) = Inl (SystemExit 1)
   \<and> filter is_Run (new_events (launch_training ''flux'') w_noscript) = pip_runs"
    by (simp add: pip_runs_def)
  with h1 h2 h3 h4 h5 h6 h7 h8 show ?thesis
    by blast
qed

text \<open>
  The claim C6 as it is stated says that nothing is run; the two \<^verbatim>\<open>pip\<close> commands are.
\<close>

theorem missing_script_counterexample:
  "truthy (training_script flux)
   \<and> fs w_noscript
       ''/workspace/diffusion-pipe-working-folder/training_scripts/start_flux_training.sh'' = None
   \<and> fst (launch_training ''flux'' w_noscript) = Inl (SystemExit 1)
   \<and> list_ex is_Run (new_events (launch_training ''flux'') w_noscript)"
proof -
  have "wp (launch_training ''flux'')
          (\<lambda>r w'. r = Inl (SystemExit 1)
             \<and> list_ex is_Run (drop (length (trace w_noscript)) (trace w'))) w_noscript"
    unfolding launch_training_def
    by (simp add: wp_rules quiet w_noscript_def w_hang_def
        MODELS_def WORKING_DIR_def split del: if_split cong: wp_cong kont_cong)
  then show ?thesis
    by (simp add: wp_def new_events_def flux_fields w_noscript_def w_hang_def)
qed

section \<open>main and the credential\<close>

lemma wp_main:
  "wp main Q w =
     wp main_body (\<lambda>r w'.
       case r of
         Inl KeyboardInterrupt \<Rightarrow>
           wp (seq (console_print []) (seq (console_print ''Cancelled by user'') (sys_exit 0))) Q w'
       | Inl (Exception e) \<Rightarrow>
           wp (seq (console_print []) (seq (console_print (''Error: '' @ e))
                (seq traceback_print_exc (sys_exit 1)))) Q w'
       | _ \<Rightarrow> Q r w') w"
  by (simp add: wp_def main_def split: prod.splits sum.splits signal.splits)

lemma preset_iff: "(truthy tok \<and> tok \<noteq> Some ''token_here'') = preset tok"
  by (cases tok) (auto simp: preset_def)

lemmas get_api_token_unfold = get_api_token_def [unfolded preset_iff]

text \<open>
  C8. For a model that requires a credential, without Ctrl-C: a credential of the
  environment that is set (non-empty and not \<^verbatim>\<open>token_here\<close>) is returned and nothing is
  asked; otherwise the user is asked for the token, an empty answer ends
  \<open>get_api_token\<close> by \<^verbatim>\<open>sys.exit(1)\<close>, and a session in which the user picks this model and
  then enters an empty token ends with exit status 1 before \<open>download_model\<close> has done
  anything (no directory made, no process started).
\<close>

theorem token_required:
  assumes "sigint_at w = None"
    and "map_of (MODELS (NETWORK_VOLUME w)) model_key = Some m"
    and "requires_token m"
  shows "(preset (HUGGING_FACE_TOKEN w) \<longrightarrow>
            fst (get_api_token model_key w) = Inr (HUGGING_FACE_TOKEN w)
            \<and> \<not> list_ex is_Ask (new_events (get_api_token model_key) w))
       \<and> (\<not> preset (HUGGING_FACE_TOKEN w) \<longrightarrow>
            Ask ''Enter your Hugging Face token'' (case prompts w of [] \<Rightarrow> None | a # as \<Rightarrow> Some a)
              \<in> set (new_events (get_api_token model_key) w)
            \<and> (\<forall>as. prompts w = [] # as \<longrightarrow>
                  fst (get_api_token model_key w) = Inl (SystemExit 1))
            \<and> (\<forall>choice as. prompts w = choice # [] # as \<and> map_of model_map choice = Some model_key \<longrightarrow>
                  exit_code (fst (main w)) = 1
                  \<and> \<not> list_ex is_Popen (new_events main w)
                  \<and> \<not> list_ex is_MakeDirs (new_events main w)))"
proof -
  have a1: "wp (get_api_token model_key)
          (\<lambda>r w'. r = Inr (HUGGING_FACE_TOKEN w)
                \<and> \<not> list_ex is_Ask (drop (length (trace w)) (trace w'))) w"
    if "preset (HUGGING_FACE_TOKEN w)"
    using assms that unfolding get_api_token_unfold
    by (simp add: wp_rules quiet split del: if_split cong: wp_cong kont_cong)
  have a2: "wp (get_api_token model_key)
          (\<lambda>r w'. list_ex (\<lambda>e. e = Ask ''Enter your Hugging Face token''
                                 (case prompts w of [] \<Rightarrow> None | a # as \<Rightarrow> Some a))
                   (drop (length (trace w)) (trace w'))
                \<and> (\<forall>as. prompts w = [] # as \<longrightarrow> r = Inl (SystemExit 1))) w"
    if "\<not> preset (HUGGING_FACE_TOKEN w)"
    using assms that unfolding get_api_token_unfold
    by (simp add: wp_rules quiet split del: if_split cong: wp_cong kont_cong)
  have b: "wp main
          (\<lambda>r w'. exit_code r = 1
             \<and> \<not> list_ex is_Popen (drop (length (trace w)) (trace w'))
             \<and> \<not> list_ex is_MakeDirs (drop (length (trace w)) (trace w'))) w"
    if "\<not> preset (HUGGING_FACE_TOKEN w)"
      and "prompts w = choice # [] # as" and "map_of model_map choice = Some model_key"
    for choice as
    using assms that
    unfolding wp_main main_body_def show_welcome_def show_menu_def get_api_token_unfold
    by (simp add: wp_rules quiet split del: if_split cong: wp_cong kont_cong)
  from a1 a2 b show ?thesis
    by (simp add: wp_def new_events_def list_ex_iff)
qed


theorem token_required_witness:
  "sigint_at w_notoken = None
   \<and> map_of (MODELS (NETWORK_VOLUME w_notoken)) ''flux'' = Some flux
   \<and> requires_token flux
   \<and> \<not> preset (HUGGING_FACE_TOKEN w_notoken)
   \<and> prompts w_notoken = [''1'', []]
   \<and> map_of model_map ''1'' = Some ''flux''
   \<and> exit_code (fst (main w_notoken)) = 1
   \<and> \<not> list_ex is_Popen (new_events main w_notoken)"
proof -
  have h1: "sigint_at w_notoken = None"
    and h2: "map_of (MODELS (NETWORK_VOLUME w_notoken)) ''flux'' = Some flux"
    and h3: "requires_token flux"
    and h4: "\<not> preset (HUGGING_FACE_TOKEN w_notoken)"
    and h5: "prompts w_notoken = [''1'', []]"
    and h6: "map_of model_map ''1'' = Some ''flux''"
    by (simp_all add: w_notoken_def w_hang_def flux_fields preset_def model_map_def)
  from token_required [OF h1 h2 h3] h1 h2 h3 h4 h5 h6 show ?thesis
    by simp
qed

end
